theory Spec2Isabelle
  imports Main
begin

section \<open>Python strings\<close>

text \<open>
  A Python \<open>str\<close> is modelled as a \<^typ>\<open>string\<close>, one \<^typ>\<open>char\<close> per code point,
  so the model covers the code points below 256. The string methods the scripts call are
  written out below; case mapping acts on the ASCII letters and leaves every other
  character as it is.
\<close>

definition ascii_uppercase :: string where
  "ascii_uppercase = ''ABCDEFGHIJKLMNOPQRSTUVWXYZ''"

definition ascii_lowercase :: string where
  "ascii_lowercase = ''abcdefghijklmnopqrstuvwxyz''"

definition lower_char :: "char \<Rightarrow> char" where
  "lower_char c = (case map_of (zip ascii_uppercase ascii_lowercase) c of
                     Some l \<Rightarrow> l | None \<Rightarrow> c)"

definition upper_char :: "char \<Rightarrow> char" where
  "upper_char c = (case map_of (zip ascii_lowercase ascii_uppercase) c of
                     Some u \<Rightarrow> u | None \<Rightarrow> c)"

text \<open>\<open>s.lower()\<close> and \<open>s.upper()\<close>.\<close>

definition lower :: "string \<Rightarrow> string" where
  "lower s = map lower_char s"

definition upper :: "string \<Rightarrow> string" where
  "upper s = map upper_char s"

text \<open>\<open>s.startswith(p)\<close>.\<close>

fun startswith :: "string \<Rightarrow> string \<Rightarrow> bool" where
  "startswith s [] = True"
| "startswith [] (p # ps) = False"
| "startswith (c # cs) (p # ps) = (c = p \<and> startswith cs ps)"

text \<open>\<open>s.replace(old, new, 1)\<close>: the first occurrence of \<open>old\<close>, if any, is replaced.\<close>

fun replace_first :: "string \<Rightarrow> string \<Rightarrow> string \<Rightarrow> string" where
  "replace_first old new [] = (if old = [] then new else [])"
| "replace_first old new (c # cs) =
     (if startswith (c # cs) old then new @ drop (length old) (c # cs)
      else c # replace_first old new cs)"

text \<open>\<open>s.replace(c, new)\<close> for a pattern of one character: every occurrence is replaced.\<close>

definition replace_char :: "char \<Rightarrow> string \<Rightarrow> string \<Rightarrow> string" where
  "replace_char c new s = concat (map (\<lambda>x. if x = c then new else [x]) s)"

text \<open>\<open>s.split(c, maxsplit)\<close> for a separator of one character.\<close>

fun py_split :: "char \<Rightarrow> nat \<Rightarrow> string \<Rightarrow> string list" where
  "py_split c 0 s = [s]"
| "py_split c (Suc n) s =
     (if c \<in> set s
      then takeWhile (\<lambda>x. x \<noteq> c) s # py_split c n (tl (dropWhile (\<lambda>x. x \<noteq> c) s))
      else [s])"

text \<open>\<open>s.lstrip(c)\<close> and \<open>s.rstrip(c)\<close> for a set of one character.\<close>

definition lstrip :: "char \<Rightarrow> string \<Rightarrow> string" where
  "lstrip c s = dropWhile (\<lambda>x. x = c) s"

definition rstrip :: "char \<Rightarrow> string \<Rightarrow> string" where
  "rstrip c s = rev (dropWhile (\<lambda>x. x = c) (rev s))"

text \<open>\<open>sep.join(parts)\<close> on strings.\<close>

fun join :: "string \<Rightarrow> string list \<Rightarrow> string" where
  "join sep [] = []"
| "join sep [p] = p"
| "join sep (p # q # ps) = p @ sep @ join sep (q # ps)"

text \<open>\<open>sub in s\<close> on strings: \<open>sub\<close> occurs in \<open>s\<close> as a contiguous run.\<close>

fun str_contains :: "string \<Rightarrow> string \<Rightarrow> bool" where
  "str_contains [] sub = (sub = [])"
| "str_contains (c # cs) sub = (startswith (c # cs) sub \<or> str_contains cs sub)"

text \<open>
  The exceptions the scripts can meet. \<open>JSONDecodeError msg doc pos\<close> carries the fields
  of Python's exception, \<open>StopIteration idx\<close> its value; \<open>SystemExit n\<close> is
  \<open>sys.exit(n)\<close>. A \<open>JSONDecodeError\<close> is a \<open>ValueError\<close> in Python's hierarchy, but
  a \<open>ValueError\<close> is not a \<open>JSONDecodeError\<close>: \<open>except json.JSONDecodeError\<close> catches
  the first constructor only.
\<close>

datatype py_error =
    AttributeError
  | TypeError
  | ValueError
  | KeyError
  | OverflowError
  | FileNotFoundError
  | UnicodeDecodeError
  | StopIteration nat
  | JSONDecodeError string string nat
  | SystemExit nat

text \<open>A failing call ends the computation: the statements after it do not run.\<close>

definition bind :: "py_error + 'a \<Rightarrow> ('a \<Rightarrow> py_error + 'b) \<Rightarrow> py_error + 'b" where
  "bind m f = (case m of Inl e \<Rightarrow> Inl e | Inr x \<Rightarrow> f x)"

text \<open>
  Decimal digits: the regular expression class \<open>\d\<close>. On a \<open>str\<close> pattern it matches
  every Unicode decimal digit; the only ones among the code points below 256, which are
  the characters of this model, are \<open>0\<close> to \<open>9\<close>.
\<close>

definition is_digit :: "char \<Rightarrow> bool" where
  "is_digit c = (c \<in> set ''0123456789'')"

definition digit_val :: "char \<Rightarrow> nat" where
  "digit_val c = of_char c - 48"

text \<open>The number a run of digits denotes.\<close>

definition int_of_digits :: "string \<Rightarrow> nat" where
  "int_of_digits ds = foldl (\<lambda>a c. 10 * a + digit_val c) 0 ds"

text \<open>
  \<open>int(ds)\<close> on a run of digits. CPython (from version 3.11, with the default setting of
  \<open>sys.set_int_max_str_digits\<close>) refuses a text of more than 4300 digits, leading zeros
  counted, with a \<open>ValueError\<close>.
\<close>

definition max_str_digits :: nat where
  "max_str_digits = 4300"

definition py_int :: "string \<Rightarrow> py_error + nat" where
  "py_int ds = (if length ds > max_str_digits then Inl ValueError else Inr (int_of_digits ds))"

text \<open>\<open>str(n)\<close> for a natural number and for an integer.\<close>

function digits_of_nat :: "nat \<Rightarrow> string" where
  "digits_of_nat n =
     (if n < 10 then [''0123456789'' ! n]
      else digits_of_nat (n div 10) @ [''0123456789'' ! (n mod 10)])"
  by pat_completeness auto
termination
  by (relation "measure (\<lambda>n. n)") auto

declare digits_of_nat.simps [simp del]

definition str_of_int :: "int \<Rightarrow> string" where
  "str_of_int i = (if i < 0 then CHR ''-'' # digits_of_nat (nat (- i)) else digits_of_nat (nat i))"

section \<open>Severity Mapper: \<open>map_severity_to_level\<close>\<close>

definition severity_map :: "(string \<times> string) list" where
  "severity_map =
     [(''critical'', ''error''), (''high'', ''error''),
      (''warning'', ''warning''), (''suggestion'', ''info'')]"

definition map_severity_to_level :: "string \<Rightarrow> string" where
  "map_severity_to_level severity =
     (case map_of severity_map (lower severity) of Some level \<Rightarrow> level | None \<Rightarrow> ''info'')"

section \<open>Location Normalizer: \<open>normalize_file_path\<close> and \<open>parse_location\<close>\<close>

definition zuul_prefixes :: "string list" where
  "zuul_prefixes =
     [''/home/zuul/src/review.opendev.org/'', ''/home/zuul/src/opendev.org/'',
      ''/home/zuul/src/'']"

text \<open>
  The \<open>for prefix in zuul_prefixes\<close> loop. \<open>Some p\<close> is the path at the \<open>break\<close>;
  \<open>None\<close> means the loop ran to its end, so its \<open>else\<close> branch runs.
\<close>

fun strip_zuul_prefix :: "string list \<Rightarrow> string \<Rightarrow> string option" where
  "strip_zuul_prefix [] file_path = None"
| "strip_zuul_prefix (prefix # rest) file_path =
     (if startswith file_path prefix
      then (let file_path' = replace_first prefix [] file_path;
                parts = py_split CHR ''/'' 2 file_path'
            in Some (if length parts \<ge> 3 then parts ! 2 else file_path'))
      else strip_zuul_prefix rest file_path)"

definition normalize_file_path :: "string \<Rightarrow> string" where
  "normalize_file_path file_path =
     (case strip_zuul_prefix zuul_prefixes file_path of
        Some p \<Rightarrow> p
      | None \<Rightarrow>
          (if startswith file_path ''/''
           then (let parts = py_split CHR ''/'' 2 (lstrip CHR ''/'' file_path)
                 in if length parts \<ge> 3 then parts ! 2 else lstrip CHR ''/'' file_path)
           else file_path))"

text \<open>
  \<open>re.match(r'^([^:]+):(\d+)(?:-\d+)?$', location)\<close>. Each of the three repetitions is
  greedy and is followed by a character it cannot match, so the match is found without
  backtracking: the longest run of non-colon characters, a colon, the longest run of
  digits, then either the end or a dash, the longest run of digits and the end. Without
  the MULTILINE flag \<open>$\<close> matches at the end of the string and also just before a newline
  that is the last character (\<open>at_end\<close>). The result is the pair of groups 1 and 2.
\<close>

definition at_end :: "string \<Rightarrow> bool" where
  "at_end r = (r = [] \<or> r = [CHR ''\<newline>''])"

definition match_location :: "string \<Rightarrow> (string \<times> string) option" where
  "match_location location =
     (let path = takeWhile (\<lambda>c. c \<noteq> CHR '':'') location;
          r1 = dropWhile (\<lambda>c. c \<noteq> CHR '':'') location
      in if path = [] \<or> r1 = [] then None
         else (let line = takeWhile is_digit (tl r1);
                   r2 = dropWhile is_digit (tl r1)
               in if line = [] then None
                  else if at_end r2 then Some (path, line)
                  else (case r2 of
                          [] \<Rightarrow> None
                        | c # r3 \<Rightarrow>
                            if c = CHR ''-'' \<and> takeWhile is_digit r3 \<noteq> []
                               \<and> at_end (dropWhile is_digit r3)
                            then Some (path, line) else None)))"

text \<open>
  \<open>parse_location\<close> returns the pair \<open>(file_path, line_number)\<close>, or \<open>(None, None)\<close>,
  which is \<open>None\<close> here; it raises what \<open>int\<close> raises.
\<close>

definition parse_location :: "string \<Rightarrow> py_error + (string \<times> nat) option" where
  "parse_location location =
     (case match_location location of
        Some (g1, g2) \<Rightarrow>
          (let file_path = normalize_file_path g1
           in bind (py_int g2) (\<lambda>line_number. Inr (Some (file_path, line_number))))
      | None \<Rightarrow> Inr None)"

text \<open>
  The grammar of the specification, in its words: \<open><path>:<line>[-<end>]\<close> with a
  non-empty path without colon and decimal digit strings for the line and the optional end.
\<close>

definition digit_string :: "string \<Rightarrow> bool" where
  "digit_string ds = (ds \<noteq> [] \<and> (\<forall>c \<in> set ds. is_digit c))"

definition range_suffix :: "string \<Rightarrow> bool" where
  "range_suffix sfx = (sfx = [] \<or> (\<exists>e. digit_string e \<and> sfx = CHR ''-'' # e))"

definition location_grammar :: "string \<Rightarrow> bool" where
  "location_grammar s =
     (\<exists>path line sfx. path \<noteq> [] \<and> CHR '':'' \<notin> set path \<and> digit_string line
        \<and> range_suffix sfx \<and> s = path @ CHR '':'' # line @ sfx)"

text \<open>
  The segment policy of the specification, in its words: the segments of a path are the
  pieces between slashes, and the first two are dropped when there are at least three.
\<close>

fun segments :: "string \<Rightarrow> string list" where
  "segments [] = [[]]"
| "segments (c # cs) =
     (if c = CHR ''/'' then [] # segments cs
      else (case segments cs of [] \<Rightarrow> [[c]] | w # ws \<Rightarrow> (c # w) # ws))"

definition drop_org_project :: "string \<Rightarrow> string" where
  "drop_org_project p =
     (if length (segments p) \<ge> 3 then join ''/'' (drop 2 (segments p)) else p)"

section \<open>Python values\<close>

text \<open>
  A Python \<open>float\<close> is a sign with a magnitude \<open>m * 2 ^ e\<close>, an infinity or a
  not-a-number; \<open>0.95\<close> is \<open>Finite False 8556839292003942 (- 53)\<close>.
\<close>

datatype pyfloat = Finite bool nat int | Infinite bool | NaN

text \<open>
  What \<open>json.loads\<close> returns. A \<open>dict\<close> is the list of its items in insertion order;
  its keys are strings and, in Python, distinct; a lookup takes the first item of a key.
\<close>

datatype json =
    JNull
  | JBool bool
  | JInt int
  | JFloat pyfloat
  | JStr string
  | JList "json list"
  | JDict "(string \<times> json) list"

text \<open>\<open>x.get(key, default)\<close>: only a \<open>dict\<close> has the method.\<close>

fun py_get :: "json \<Rightarrow> string \<Rightarrow> json \<Rightarrow> py_error + json" where
  "py_get (JDict kvs) k d = Inr (case map_of kvs k of Some v \<Rightarrow> v | None \<Rightarrow> d)"
| "py_get x k d = Inl AttributeError"

text \<open>
  \<open>key in x\<close> for a string key: a key of a \<open>dict\<close>, an element of a \<open>list\<close>, a
  substring of a \<open>str\<close>; the other values are not containers.
\<close>

fun py_contains :: "string \<Rightarrow> json \<Rightarrow> py_error + bool" where
  "py_contains k (JDict kvs) = Inr (k \<in> set (map fst kvs))"
| "py_contains k (JList xs) = Inr (JStr k \<in> set xs)"
| "py_contains k (JStr s) = Inr (str_contains s k)"
| "py_contains k x = Inl TypeError"

text \<open>\<open>x[key]\<close> for a string key.\<close>

fun py_index :: "json \<Rightarrow> string \<Rightarrow> py_error + json" where
  "py_index (JDict kvs) k = (case map_of kvs k of Some v \<Rightarrow> Inr v | None \<Rightarrow> Inl KeyError)"
| "py_index x k = Inl TypeError"

text \<open>The truth value of \<open>x\<close> in \<open>if x\<close> and \<open>not x\<close>.\<close>

fun truthy :: "json \<Rightarrow> bool" where
  "truthy JNull = False"
| "truthy (JBool b) = b"
| "truthy (JInt i) = (i \<noteq> 0)"
| "truthy (JFloat (Finite s m e)) = (m \<noteq> 0)"
| "truthy (JFloat f) = True"
| "truthy (JStr s) = (s \<noteq> [])"
| "truthy (JList xs) = (xs \<noteq> [])"
| "truthy (JDict kvs) = (kvs \<noteq> [])"

text \<open>The items a \<open>for\<close> loop visits: a \<open>dict\<close> gives its keys, a \<open>str\<close> its characters.\<close>

fun py_iter :: "json \<Rightarrow> py_error + json list" where
  "py_iter (JList xs) = Inr xs"
| "py_iter (JDict kvs) = Inr (map (\<lambda>kv. JStr (fst kv)) kvs)"
| "py_iter (JStr s) = Inr (map (\<lambda>c. JStr [c]) s)"
| "py_iter x = Inl TypeError"

text \<open>\<open>isinstance\<close>: a \<open>bool\<close> is an \<open>int\<close> in Python.\<close>

fun is_dict :: "json \<Rightarrow> bool" where
  "is_dict (JDict kvs) = True"
| "is_dict x = False"

fun is_list :: "json \<Rightarrow> bool" where
  "is_list (JList xs) = True"
| "is_list x = False"

fun is_int :: "json \<Rightarrow> bool" where
  "is_int (JInt i) = True"
| "is_int (JBool b) = True"
| "is_int x = False"

fun is_str :: "json \<Rightarrow> bool" where
  "is_str (JStr s) = True"
| "is_str x = False"

text \<open>\<open>type(x).__name__\<close>.\<close>

fun type_name :: "json \<Rightarrow> string" where
  "type_name JNull = ''NoneType''"
| "type_name (JBool b) = ''bool''"
| "type_name (JInt i) = ''int''"
| "type_name (JFloat f) = ''float''"
| "type_name (JStr s) = ''str''"
| "type_name (JList xs) = ''list''"
| "type_name (JDict kvs) = ''dict''"

text \<open>
  \<open>str(x)\<close>, which is also what \<open>{x}\<close> in an f-string gives. It is written out for strings,
  integers, booleans and \<open>None\<close>. For a float, a list or a dict it is the text Python's
  \<open>repr\<close> algorithms give, taken as the parameter \<open>r\<close>.
\<close>

fun py_str :: "(json \<Rightarrow> string) \<Rightarrow> json \<Rightarrow> string" where
  "py_str r (JStr s) = s"
| "py_str r (JInt i) = str_of_int i"
| "py_str r (JBool b) = (if b then ''True'' else ''False'')"
| "py_str r JNull = ''None''"
| "py_str r x = r x"

text \<open>\<open>sep.join(parts)\<close>: every part has to be a \<open>str\<close>.\<close>

fun the_strs :: "json list \<Rightarrow> string list option" where
  "the_strs [] = Some []"
| "the_strs (JStr s # xs) = (case the_strs xs of Some ss \<Rightarrow> Some (s # ss) | None \<Rightarrow> None)"
| "the_strs (x # xs) = None"

definition py_join :: "string \<Rightarrow> json list \<Rightarrow> py_error + string" where
  "py_join sep parts = (case the_strs parts of Some ss \<Rightarrow> Inr (join sep ss) | None \<Rightarrow> Inl TypeError)"

subsection \<open>The format specification \<open>.1f\<close>\<close>

text \<open>The number of bits of a natural number.\<close>

function bit_length :: "nat \<Rightarrow> nat" where
  "bit_length n = (if n = 0 then 0 else Suc (bit_length (n div 2)))"
  by pat_completeness auto
termination
  by (relation "measure (\<lambda>n. n)") auto

declare bit_length.simps [simp del]

text \<open>Rounding a quotient to the nearest integer, a tie to the even one.\<close>

definition round_half_even :: "nat \<Rightarrow> nat \<Rightarrow> nat" where
  "round_half_even num den =
     (let q = num div den; rem = num mod den
      in if 2 * rem > den \<or> (2 * rem = den \<and> odd q) then q + 1 else q)"

text \<open>
  \<open>float(n)\<close> for the magnitude of an integer: the nearest value with 53 significant
  bits, or an \<open>OverflowError\<close> from \<open>2 ^ 1024\<close> on.
\<close>

definition float_of_nat :: "nat \<Rightarrow> py_error + nat" where
  "float_of_nat n =
     (let k = bit_length n - 53; v = round_half_even n (2 ^ k) * 2 ^ k
      in if v \<ge> 2 ^ 1024 then Inl OverflowError else Inr v)"

text \<open>
  A float with one digit after the point: the tenths of the magnitude, correctly rounded,
  tie to even, as CPython's formatting does; the sign is kept, also before zero.
\<close>

fun tenths :: "nat \<Rightarrow> int \<Rightarrow> nat" where
  "tenths m e = (if e \<ge> 0 then 10 * m * 2 ^ nat e else round_half_even (10 * m) (2 ^ nat (- e)))"

fun float_1f :: "pyfloat \<Rightarrow> string" where
  "float_1f (Finite neg m e) =
     (if neg then ''-'' else []) @ digits_of_nat (tenths m e div 10) @ ''.''
       @ digits_of_nat (tenths m e mod 10)"
| "float_1f (Infinite neg) = (if neg then ''-inf'' else ''inf'')"
| "float_1f NaN = ''nan''"

text \<open>
  \<open>f"{x:.1f}"\<close>: a float is formatted, an integer or boolean is converted to a float
  first, a string rejects the format code and the other values reject any format.
\<close>

fun format_1f :: "json \<Rightarrow> py_error + string" where
  "format_1f (JFloat f) = Inr (float_1f f)"
| "format_1f (JInt i) =
     bind (float_of_nat (nat \<bar>i\<bar>)) (\<lambda>v. Inr (float_1f (Finite (i < 0) v 0)))"
| "format_1f (JBool b) = Inr (if b then ''1.0'' else ''0.0'')"
| "format_1f (JStr s) = Inl ValueError"
| "format_1f x = Inl TypeError"

section \<open>CI-Comment Renderer: \<open>generate_zuul_comments.py\<close>\<close>

text \<open>
  The two shapes of statement in \<open>format_issue_message\<close>:
  \<open>if key in issue: parts.append(f"label{issue[key]}")\<close>, with
  \<open>parts.append("")\<close> after it when \<open>blank\<close> is set, and
  \<open>if key in issue: parts.append(header); parts.append(issue[key])\<close>.
\<close>

definition append_field ::
  "(json \<Rightarrow> string) \<Rightarrow> json \<Rightarrow> string \<Rightarrow> string \<Rightarrow> bool \<Rightarrow> json list \<Rightarrow> py_error + json list" where
  "append_field r issue key label blank parts =
     bind (py_contains key issue) (\<lambda>present.
       if present
       then bind (py_index issue key) (\<lambda>v.
              Inr (parts @ [JStr (label @ py_str r v)] @ (if blank then [JStr []] else [])))
       else Inr parts)"

definition append_block ::
  "json \<Rightarrow> string \<Rightarrow> string \<Rightarrow> json list \<Rightarrow> py_error + json list" where
  "append_block issue key header parts =
     bind (py_contains key issue) (\<lambda>present.
       if present
       then bind (py_index issue key) (\<lambda>v. Inr (parts @ [JStr header, v]))
       else Inr parts)"

definition format_issue_message :: "(json \<Rightarrow> string) \<Rightarrow> json \<Rightarrow> string \<Rightarrow> py_error + string" where
  "format_issue_message r issue severity =
     bind (py_get issue ''description'' (JStr ''No description'')) (\<lambda>description.
     bind (py_get issue ''confidence'' (JFloat (Finite False 0 0))) (\<lambda>confidence.
     bind (format_1f confidence) (\<lambda>conf.
     bind (if severity \<in> set [''critical'', ''high'']
           then bind (append_field r issue ''risk'' ''**Risk**: '' True
                        [description, JStr [],
                         JStr (''**Severity**: '' @ upper severity @ '' | **Confidence**: '' @ conf),
                         JStr []]) (\<lambda>parts.
                bind (append_field r issue ''remediation_priority'' ''**Priority**: '' False parts) (\<lambda>parts.
                bind (append_field r issue ''why_matters'' ''**Why This Matters**: '' True parts) (\<lambda>parts.
                append_block issue ''recommendation'' ''**Recommendation**:'' parts)))
           else if severity = ''warning''
           then bind (append_field r issue ''impact'' ''**Impact**: '' True
                        [description, JStr [],
                         JStr (''**Severity**: '' @ upper severity @ '' | **Confidence**: '' @ conf),
                         JStr []]) (\<lambda>parts.
                append_block issue ''suggestion'' ''**Suggestion**:'' parts)
           else if severity = ''suggestion''
           then bind (append_field r issue ''benefit'' ''**Benefit**: '' True
                        [description, JStr [],
                         JStr (''**Severity**: '' @ upper severity @ '' | **Confidence**: '' @ conf),
                         JStr []]) (\<lambda>parts.
                append_block issue ''recommendation'' ''**Recommendation**:'' parts)
           else Inr [description, JStr [],
                     JStr (''**Severity**: '' @ upper severity @ '' | **Confidence**: '' @ conf),
                     JStr []]) (\<lambda>parts.
     py_join ''\<newline>'' parts))))"

text \<open>
  \<open>file_comments\<close>, the dict from file path to the list of its comments, in insertion
  order; \<open>add_comment\<close> is the \<open>if file_path not in file_comments\<close> statement with the
  \<open>append\<close> after it.
\<close>

type_synonym file_comments = "(string \<times> json list) list"

fun add_comment :: "string \<Rightarrow> json \<Rightarrow> file_comments \<Rightarrow> file_comments" where
  "add_comment file_path comment [] = [(file_path, [comment])]"
| "add_comment file_path comment ((p, cs) # rest) =
     (if p = file_path then (p, cs @ [comment]) # rest
      else (p, cs) # add_comment file_path comment rest)"

text \<open>
  The body of the inner loop of \<open>extract_file_comments\<close> for one issue; \<open>Inr fc\<close> with
  the comments unchanged is a \<open>continue\<close>. \<open>re.match\<close> raises a \<open>TypeError\<close> on a
  location that is not a string.
\<close>

definition process_issue ::
  "(json \<Rightarrow> string) \<Rightarrow> string \<Rightarrow> file_comments \<Rightarrow> json \<Rightarrow> py_error + file_comments" where
  "process_issue r severity_label fc issue =
     bind (py_get issue ''location'' (JStr [])) (\<lambda>location.
       if \<not> truthy location then Inr fc
       else (case location of
               JStr loc \<Rightarrow>
                 bind (parse_location loc) (\<lambda>parsed.
                   case parsed of
                     None \<Rightarrow> Inr fc
                   | Some (file_path, line_number) \<Rightarrow>
                       if file_path = [] \<or> line_number = 0 then Inr fc
                       else bind (format_issue_message r issue severity_label) (\<lambda>message.
                              Inr (add_comment file_path
                                     (JDict [(''line'', JInt (int line_number)),
                                             (''message'', JStr message),
                                             (''level'', JStr (map_severity_to_level severity_label))])
                                     fc)))
             | _ \<Rightarrow> Inl TypeError))"

fun process_issues ::
  "(json \<Rightarrow> string) \<Rightarrow> string \<Rightarrow> json list \<Rightarrow> file_comments \<Rightarrow> py_error + file_comments" where
  "process_issues r severity_label [] fc = Inr fc"
| "process_issues r severity_label (issue # rest) fc =
     bind (process_issue r severity_label fc issue) (process_issues r severity_label rest)"

fun process_severities ::
  "(json \<Rightarrow> string) \<Rightarrow> json \<Rightarrow> string list \<Rightarrow> file_comments \<Rightarrow> py_error + file_comments" where
  "process_severities r issues [] fc = Inr fc"
| "process_severities r issues (severity # rest) fc =
     bind (py_get issues severity (JList [])) (\<lambda>listed.
     bind (py_iter listed) (\<lambda>items.
     bind (process_issues r (rstrip CHR ''s'' severity) items fc)
       (process_severities r issues rest)))"

definition extract_file_comments :: "(json \<Rightarrow> string) \<Rightarrow> json \<Rightarrow> py_error + file_comments" where
  "extract_file_comments r review_data =
     bind (py_get review_data ''issues'' (JDict []))
       (\<lambda>issues. process_severities r issues [''critical'', ''high'', ''warnings'', ''suggestions''] [])"

definition generate_zuul_return_data :: "(json \<Rightarrow> string) \<Rightarrow> json \<Rightarrow> py_error + json" where
  "generate_zuul_return_data r review_data =
     bind (extract_file_comments r review_data) (\<lambda>fc.
       Inr (JDict [(''zuul'',
              JDict [(''file_comments'', JDict (map (\<lambda>pc. (fst pc, JList (snd pc))) fc))])]))"

subsection \<open>\<open>validate_zuul_schema\<close> of the generator\<close>

text \<open>
  The function returns a boolean; the line it prints to stderr before it returns
  \<open>False\<close> is left out of the model.
\<close>

definition validate_comment :: "json \<Rightarrow> bool" where
  "validate_comment comment =
     (case comment of
        JDict kvs \<Rightarrow>
          (case map_of kvs ''line'' of
             None \<Rightarrow> False
           | Some line \<Rightarrow>
               (case map_of kvs ''message'' of
                  None \<Rightarrow> False
                | Some message \<Rightarrow>
                    if \<not> is_int line then False
                    else if \<not> is_str message then False
                    else (case map_of kvs ''level'' of
                            None \<Rightarrow> True
                          | Some level \<Rightarrow>
                              level \<in> set [JStr ''error'', JStr ''warning'', JStr ''info''])))
      | _ \<Rightarrow> False)"

fun validate_comments :: "json list \<Rightarrow> bool" where
  "validate_comments [] = True"
| "validate_comments (comment # rest) =
     (if validate_comment comment then validate_comments rest else False)"

fun validate_files :: "(string \<times> json) list \<Rightarrow> bool" where
  "validate_files [] = True"
| "validate_files ((file_path, comments) # rest) =
     (case comments of
        JList cs \<Rightarrow> if validate_comments cs then validate_files rest else False
      | _ \<Rightarrow> False)"

definition validate_zuul_schema :: "json \<Rightarrow> py_error + bool" where
  "validate_zuul_schema data =
     bind (py_contains ''zuul'' data) (\<lambda>has_zuul.
       if \<not> has_zuul then Inr False
       else bind (py_index data ''zuul'') (\<lambda>zuul.
            bind (py_contains ''file_comments'' zuul) (\<lambda>has_fc.
              if \<not> has_fc then Inr False
              else bind (py_index zuul ''file_comments'') (\<lambda>fc.
                     case fc of JDict items \<Rightarrow> Inr (validate_files items) | _ \<Rightarrow> Inr False))))"

section \<open>Tolerant Decoder and \<open>main\<close> of \<open>generate_zuul_comments.py\<close>\<close>

subsection \<open>\<open>json.loads\<close> and \<open>raw_decode\<close> of Python's library\<close>

text \<open>
  The two library functions the script calls are written out as \<open>json/decoder.py\<close>
  defines them, over the scanner \<open>scan_once\<close>, which is a parameter of the model:
  \<open>scan_once s idx\<close> decodes the JSON value that starts at index \<open>idx\<close> of \<open>s\<close> and returns
  it with the index where it ends. It raises \<open>StopIteration idx\<close> when no value starts
  there, a \<open>JSONDecodeError\<close> inside a malformed value, and a plain \<open>ValueError\<close> on an
  integer literal too long for \<open>int\<close>.

  \<open>WHITESPACE.match(s, idx).end()\<close>, where \<open>WHITESPACE\<close> is the pattern \<open>[ \t\n\r]*\<close>:
\<close>

definition is_whitespace :: "char \<Rightarrow> bool" where
  "is_whitespace c = (c \<in> set [CHR '' '', CHR 0x09, CHR ''\<newline>'', CHR 0x0D])"

definition whitespace_end :: "string \<Rightarrow> nat \<Rightarrow> nat" where
  "whitespace_end s idx = idx + length (takeWhile is_whitespace (drop idx s))"

text \<open>
  \<open>JSONDecoder.raw_decode(s, idx)\<close>: the value at \<open>idx\<close>, with no whitespace skipped; a
  \<open>StopIteration\<close> of the scanner becomes the \<open>JSONDecodeError\<close> \<open>Expecting value\<close>.
\<close>

definition raw_decode ::
  "(string \<Rightarrow> nat \<Rightarrow> py_error + json \<times> nat) \<Rightarrow> string \<Rightarrow> nat \<Rightarrow> py_error + json \<times> nat" where
  "raw_decode scan_once s idx =
     (case scan_once s idx of
        Inl (StopIteration v) \<Rightarrow> Inl (JSONDecodeError ''Expecting value'' s v)
      | Inl e \<Rightarrow> Inl e
      | Inr (obj, end_index) \<Rightarrow> Inr (obj, end_index))"

text \<open>
  \<open>JSONDecoder.decode(s)\<close>: whitespace is skipped before the value and after it, and
  anything left is \<open>Extra data\<close>.
\<close>

definition decode ::
  "(string \<Rightarrow> nat \<Rightarrow> py_error + json \<times> nat) \<Rightarrow> string \<Rightarrow> py_error + json" where
  "decode scan_once s =
     bind (raw_decode scan_once s (whitespace_end s 0)) (\<lambda>(obj, end_index).
       if whitespace_end s end_index \<noteq> length s
       then Inl (JSONDecodeError ''Extra data'' s (whitespace_end s end_index))
       else Inr obj)"

text \<open>
  \<open>json.loads(s)\<close> on a \<open>str\<close>, without keyword arguments, is \<open>decode\<close> of the default
  decoder; the byte order mark it rejects first is not a character of this model.
\<close>

definition loads ::
  "(string \<Rightarrow> nat \<Rightarrow> py_error + json \<times> nat) \<Rightarrow> string \<Rightarrow> py_error + json" where
  "loads scan_once s = decode scan_once s"

subsection \<open>The script\<close>

text \<open>
  The file is given by what \<open>filepath.read_text(encoding='utf-8')\<close> does: it returns the
  text or raises. \<open>except json.JSONDecodeError\<close> catches that exception only, so any other
  exception of \<open>json.loads\<close> leaves the function at once; the second attempt is
  \<open>decoder.raw_decode(content)\<close>, at index 0.
\<close>

definition load_json_with_trailing_text ::
  "(string \<Rightarrow> nat \<Rightarrow> py_error + json \<times> nat) \<Rightarrow> py_error + string \<Rightarrow> py_error + json" where
  "load_json_with_trailing_text scan_once read_text =
     bind read_text (\<lambda>content.
       case loads scan_once content of
         Inr data \<Rightarrow> Inr data
       | Inl (JSONDecodeError msg doc pos) \<Rightarrow>
           (case raw_decode scan_once content 0 of
              Inr (data, end_index) \<Rightarrow> Inr data
            | Inl (JSONDecodeError msg' doc' pos') \<Rightarrow>
                Inl (JSONDecodeError (''No valid JSON found in file: '' @ msg') doc' pos')
            | Inl e \<Rightarrow> Inl e)
       | Inl e \<Rightarrow> Inl e)"

definition extract_review_data :: "json \<Rightarrow> py_error + json" where
  "extract_review_data data =
     bind (py_contains ''structured_output'' data) (\<lambda>present.
       if present
       then bind (py_index data ''structured_output'') (\<lambda>inner.
              Inr (if is_dict inner then inner else data))
       else Inr data)"

text \<open>
  \<open>main\<close> up to the data it emits: \<open>Inr\<close> is the value handed to \<open>json.dumps\<close> and
  printed or written, \<open>Inl (SystemExit 1)\<close> is \<open>sys.exit(1)\<close>, any other \<open>Inl\<close> an
  exception that nothing catches. The option \<open>--validate\<close> has the default \<open>True\<close> and no
  way to switch it off. The lines printed to stderr are left out.
\<close>

definition main ::
  "(json \<Rightarrow> string) \<Rightarrow> (string \<Rightarrow> nat \<Rightarrow> py_error + json \<times> nat) \<Rightarrow>
   py_error + string \<Rightarrow> py_error + json" where
  "main r scan_once read_text =
     (case load_json_with_trailing_text scan_once read_text of
        Inl FileNotFoundError \<Rightarrow> Inl (SystemExit 1)
      | Inl (JSONDecodeError msg doc pos) \<Rightarrow> Inl (SystemExit 1)
      | Inl e \<Rightarrow> Inl e
      | Inr raw_data \<Rightarrow>
          bind (extract_review_data raw_data) (\<lambda>review_data.
          bind (py_contains ''structured_output'' raw_data) (\<lambda>present.
          bind (if present
                then bind (py_index raw_data ''structured_output'') (\<lambda>inner. Inr (\<not> is_dict inner))
                else Inr False) (\<lambda>wrong_shape.
            if wrong_shape then Inl (SystemExit 1)
            else bind (generate_zuul_return_data r review_data) (\<lambda>zuul_data.
                 bind (validate_zuul_schema zuul_data) (\<lambda>valid.
                   if \<not> valid then Inl (SystemExit 1) else Inr zuul_data))))))"

text \<open>
  A scanner for the examples below. The only value it knows is the empty object \<open>{}\<close>;
  on a text in which no other JSON value starts it does what Python's scanner does.
\<close>

definition example_scan_once :: "string \<Rightarrow> nat \<Rightarrow> py_error + json \<times> nat" where
  "example_scan_once s idx =
     (if startswith (drop idx s) ''{}'' then Inr (JDict [], idx + 2) else Inl (StopIteration idx))"

section \<open>Schema Validator: \<open>validate_zuul_schema.py\<close>\<close>

text \<open>
  \<open>level not in valid_levels\<close>, where \<open>valid_levels\<close> is a set: the membership test
  hashes the value, which raises a \<open>TypeError\<close> for a list or a dict.
\<close>

definition valid_levels :: "string list" where
  "valid_levels = [''info'', ''warning'', ''error'']"

fun in_valid_levels :: "json \<Rightarrow> py_error + bool" where
  "in_valid_levels (JStr s) = Inr (s \<in> set valid_levels)"
| "in_valid_levels (JList xs) = Inl TypeError"
| "in_valid_levels (JDict kvs) = Inl TypeError"
| "in_valid_levels x = Inr False"

text \<open>
  The checks of \<open>validate_schema\<close> on the comment at index \<open>i\<close> of a file. \<open>Some msg\<close>
  is \<open>return False, msg\<close>; \<open>None\<close> means that the loop goes on.
\<close>

definition comment_error ::
  "(json \<Rightarrow> string) \<Rightarrow> string \<Rightarrow> nat \<Rightarrow> json \<Rightarrow> py_error + string option" where
  "comment_error r file_path i comment =
     (case comment of
        JDict kvs \<Rightarrow>
          (case map_of kvs ''message'' of
             None \<Rightarrow>
               Inr (Some (''Comment '' @ digits_of_nat i @ '' in '' @ file_path
                          @ '' missing required message field''))
           | Some message \<Rightarrow>
               bind (case map_of kvs ''level'' of
                       None \<Rightarrow> Inr False
                     | Some level \<Rightarrow> bind (in_valid_levels level) (\<lambda>ok. Inr (\<not> ok))) (\<lambda>bad_level.
                 if bad_level
                 then Inr (Some (''Invalid level '' @ py_str r (the (map_of kvs ''level''))
                                 @ '' in '' @ file_path @ '', must be info/warning/error''))
                 else (case map_of kvs ''line'' of
                         None \<Rightarrow> Inr None
                       | Some line \<Rightarrow>
                           if \<not> is_int line
                           then Inr (Some (''line must be integer in '' @ file_path @ '', got ''
                                           @ type_name line))
                           else Inr None)))
      | _ \<Rightarrow>
          Inr (Some (''Comment '' @ digits_of_nat i @ '' in '' @ file_path @ '' must be a dict'')))"

fun comments_error ::
  "(json \<Rightarrow> string) \<Rightarrow> string \<Rightarrow> nat \<Rightarrow> json list \<Rightarrow> py_error + string option" where
  "comments_error r file_path i [] = Inr None"
| "comments_error r file_path i (comment # rest) =
     bind (comment_error r file_path i comment) (\<lambda>res.
       case res of Some msg \<Rightarrow> Inr (Some msg) | None \<Rightarrow> comments_error r file_path (Suc i) rest)"

fun files_error :: "(json \<Rightarrow> string) \<Rightarrow> (string \<times> json) list \<Rightarrow> py_error + string option" where
  "files_error r [] = Inr None"
| "files_error r ((file_path, comments) # rest) =
     (case comments of
        JList cs \<Rightarrow>
          bind (comments_error r file_path 0 cs) (\<lambda>res.
            case res of Some msg \<Rightarrow> Inr (Some msg) | None \<Rightarrow> files_error r rest)
      | _ \<Rightarrow> Inr (Some (''Comments for '' @ file_path @ '' must be a list'')))"

definition validate_schema :: "(json \<Rightarrow> string) \<Rightarrow> json \<Rightarrow> py_error + (bool \<times> string)" where
  "validate_schema r data =
     bind (py_contains ''zuul'' data) (\<lambda>has_zuul.
       if \<not> has_zuul then Inr (False, ''Missing required key: zuul'')
       else bind (py_index data ''zuul'') (\<lambda>zuul.
            bind (py_contains ''file_comments'' zuul) (\<lambda>has_fc.
              if \<not> has_fc then Inr (False, ''Missing required key: zuul.file_comments'')
              else bind (py_index zuul ''file_comments'') (\<lambda>file_comments.
                     case file_comments of
                       JDict items \<Rightarrow>
                         bind (files_error r items) (\<lambda>res.
                           case res of
                             Some msg \<Rightarrow> Inr (False, msg)
                           | None \<Rightarrow> Inr (True, ''Schema validation passed''))
                     | _ \<Rightarrow>
                         Inr (False, ''file_comments must be a dict, got ''
                                     @ type_name file_comments)))))"

section \<open>HTML Renderer: \<open>render_html_from_json.py\<close>\<close>

text \<open>
  \<open>escape_html\<close>: a value that is not a string is converted with \<open>str\<close> first, then the
  five replacements run one after the other, the ampersand first.
\<close>

definition escape_html :: "(json \<Rightarrow> string) \<Rightarrow> json \<Rightarrow> string" where
  \<open>escape_html r text =
     replace_char (CHR 0x27) ''&#39;''
       (replace_char (CHR 0x22) ''&quot;''
         (replace_char CHR ''>'' ''&gt;''
           (replace_char CHR ''<'' ''&lt;''
             (replace_char CHR ''&'' ''&amp;''
               (case text of JStr s \<Rightarrow> s | _ \<Rightarrow> py_str r text)))))\<close>

definition render_context_section :: "(json \<Rightarrow> string) \<Rightarrow> json \<Rightarrow> py_error + string" where
  \<open>render_context_section r context =
     bind (py_get context ''change'' (JStr ''N/A'')) (\<lambda>change.
     bind (py_get context ''scope'' (JStr ''N/A'')) (\<lambda>scope.
     bind (py_get context ''impact'' (JStr ''N/A'')) (\<lambda>impact.
       Inr (''<section role="region" aria-label="Review context">\<newline><h2>Context</h2>\<newline><ul>\<newline><li><strong>Change</strong>: ''
            @ escape_html r change
            @ ''</li>\<newline><li><strong>Scope</strong>: ''
            @ escape_html r scope
            @ ''</li>\<newline><li><strong>Impact</strong>: ''
            @ escape_html r impact
            @ ''</li>\<newline></ul>\<newline></section>\<newline>''))))\<close>

text \<open>
  The statistics section. Each number is written twice, into the label and into the body
  of its \<open>stat-number\<close> element; \<open>stat_number\<close> is that stretch of the template.
\<close>

definition stat_number :: "string \<Rightarrow> string \<Rightarrow> string" where
  \<open>stat_number n what =
     ''<div class="stat-number" aria-label="'' @ n @ what @ ''">'' @ n @ ''</div>''\<close>

definition render_statistics_section :: "(json \<Rightarrow> string) \<Rightarrow> json \<Rightarrow> py_error + string" where
  \<open>render_statistics_section r statistics =
     bind (py_get statistics ''critical'' (JInt 0)) (\<lambda>critical.
     bind (py_get statistics ''high'' (JInt 0)) (\<lambda>high.
     bind (py_get statistics ''warnings'' (JInt 0)) (\<lambda>warnings.
     bind (py_get statistics ''suggestions'' (JInt 0)) (\<lambda>suggestions.
     bind (py_get statistics ''total'' (JInt 0)) (\<lambda>total.
       Inr (''<div class="summary-stats">\<newline><div class="stats-container" role="region" aria-label="Summary statistics">\<newline>    <div class="stat-item stat-critical">\<newline>        ''
            @ stat_number (py_str r critical) '' critical issues''
            @ ''\<newline>        <div class="stat-label">Critical</div>\<newline>    </div>\<newline>    <div class="stat-item stat-high">\<newline>        ''
            @ stat_number (py_str r high) '' high issues''
            @ ''\<newline>        <div class="stat-label">High</div>\<newline>    </div>\<newline>    <div class="stat-item stat-warning">\<newline>        ''
            @ stat_number (py_str r warnings) '' warnings''
            @ ''\<newline>        <div class="stat-label">Warnings</div>\<newline>    </div>\<newline>    <div class="stat-item stat-suggestion">\<newline>        ''
            @ stat_number (py_str r suggestions) '' suggestions''
            @ ''\<newline>        <div class="stat-label">Suggestions</div>\<newline>    </div>\<newline>    <div class="stat-item">\<newline>        ''
            @ stat_number (py_str r total) '' total findings''
            @ ''\<newline>        <div class="stat-label">Total</div>\<newline>    </div>\<newline></div>\<newline></div>\<newline>''))))))\<close>

text \<open>
  The badge table of \<open>render_issue_card\<close>; the icons are written as the bytes of their
  UTF-8 encoding.
\<close>

definition badge_map :: "(string \<times> string \<times> string) list" where
  "badge_map =
     [(''critical'', ([CHR 0xE2, CHR 0x9B, CHR 0x94], ''CRITICAL'')),
      (''high'', ([CHR 0xF0, CHR 0x9F, CHR 0x94, CHR 0xB4], ''HIGH'')),
      (''warning'', ([CHR 0xE2, CHR 0x9A, CHR 0xA0, CHR 0xEF, CHR 0xB8, CHR 0x8F], ''WARNING'')),
      (''suggestion'', ([CHR 0xE2, CHR 0x84, CHR 0xB9, CHR 0xEF, CHR 0xB8, CHR 0x8F], ''SUGGESTION''))]"

text \<open>
  \<open>if key in issue: details_parts.append(f'<p><strong>label</strong>: {escape_html(issue[key])}</p>')\<close>.
\<close>

definition detail_field ::
  "(json \<Rightarrow> string) \<Rightarrow> json \<Rightarrow> string \<Rightarrow> string \<Rightarrow> string list \<Rightarrow> py_error + string list" where
  \<open>detail_field r issue key label details_parts =
     bind (py_contains key issue) (\<lambda>present.
       if present
       then bind (py_index issue key) (\<lambda>v.
              Inr (details_parts
                   @ [''<p><strong>'' @ label @ ''</strong>: '' @ escape_html r v @ ''</p>'']))
       else Inr details_parts)\<close>

definition render_issue_card ::
  "(json \<Rightarrow> string) \<Rightarrow> json \<Rightarrow> string \<Rightarrow> nat \<Rightarrow> nat \<Rightarrow> py_error + string" where
  \<open>render_issue_card r issue severity number total' =
     bind (py_get issue ''description'' (JStr ''No description'')) (\<lambda>description.
     bind (py_get issue ''confidence'' (JFloat (Finite False 0 0))) (\<lambda>confidence.
     bind (py_get issue ''location'' (JStr ''Unknown'')) (\<lambda>location.
     bind (if severity \<in> set [''critical'', ''high'']
           then bind (detail_field r issue ''risk'' ''Risk''
                        [''<p><strong>Location</strong>: <code>'' @ escape_html r location
                         @ ''</code></p>'']) (\<lambda>parts.
                bind (detail_field r issue ''remediation_priority'' ''Remediation Priority'' parts) (\<lambda>parts.
                bind (detail_field r issue ''why_matters'' ''Why This Matters'' parts) (\<lambda>parts.
                detail_field r issue ''recommendation'' ''Recommendation'' parts)))
           else if severity = ''warning''
           then bind (detail_field r issue ''impact'' ''Impact''
                        [''<p><strong>Location</strong>: <code>'' @ escape_html r location
                         @ ''</code></p>'']) (\<lambda>parts.
                detail_field r issue ''suggestion'' ''Suggestion'' parts)
           else if severity = ''suggestion''
           then bind (detail_field r issue ''benefit'' ''Benefit''
                        [''<p><strong>Location</strong>: <code>'' @ escape_html r location
                         @ ''</code></p>'']) (\<lambda>parts.
                detail_field r issue ''recommendation'' ''Recommendation'' parts)
           else Inr [''<p><strong>Location</strong>: <code>'' @ escape_html r location
                     @ ''</code></p>'']) (\<lambda>details_parts.
     bind (format_1f confidence) (\<lambda>conf.
       Inr (''<details class="issue-card ''
            @ severity
            @ ''" open>\<newline>    <summary class="issue-summary">\<newline>        <span class="severity-badge severity-''
            @ severity
            @ ''">\<newline>            <span class="severity-icon" aria-hidden="true">''
            @ fst (case map_of badge_map severity of Some b \<Rightarrow> b | None \<Rightarrow> ([CHR 0xE2, CHR 0x80, CHR 0xA2], upper severity))
            @ ''</span>\<newline>            ''
            @ snd (case map_of badge_map severity of Some b \<Rightarrow> b | None \<Rightarrow> ([CHR 0xE2, CHR 0x80, CHR 0xA2], upper severity))
            @ ''\<newline>        </span>\<newline>        <span class="issue-number">''
            @ digits_of_nat number
            @ '' of ''
            @ digits_of_nat total'
            @ ''</span>\<newline>        <span class="issue-description">''
            @ escape_html r description
            @ ''</span>\<newline>        <span class="confidence">Confidence: ''
            @ conf
            @ ''</span>\<newline>    </summary>\<newline>    <div class="issue-details">\<newline>        ''
            @ join ''\<newline>'' details_parts
            @ ''\<newline>    </div>\<newline></details>\<newline>''))))))\<close>

text \<open>
  \<open>render_all_issues\<close> is four blocks of the same shape, one per severity, written once
  here as \<open>render_section\<close>; \<open>render_cards\<close> is the loop over \<open>enumerate(issues, 1)\<close>.
\<close>

fun render_cards ::
  "(json \<Rightarrow> string) \<Rightarrow> string \<Rightarrow> nat \<Rightarrow> nat \<Rightarrow> json list \<Rightarrow> py_error + string list" where
  "render_cards r severity idx total' [] = Inr []"
| "render_cards r severity idx total' (issue # rest) =
     bind (render_issue_card r issue severity idx total') (\<lambda>card.
     bind (render_cards r severity (Suc idx) total' rest) (\<lambda>cards. Inr (card # cards)))"

definition render_section ::
  "(json \<Rightarrow> string) \<Rightarrow> json \<Rightarrow> string \<Rightarrow> string \<Rightarrow> string \<Rightarrow> string \<Rightarrow> string list \<Rightarrow>
   py_error + string list" where
  \<open>render_section r issues key severity aria heading html_parts =
     bind (py_get issues key (JList [])) (\<lambda>listed.
       if truthy listed
       then bind (py_iter listed) (\<lambda>items.
            bind (render_cards r severity 1 (length items) items) (\<lambda>cards.
              Inr (html_parts
                   @ [''<section role="region" aria-label="'' @ aria @ ''">'',
                      ''<h2>'' @ heading @ ''</h2>'']
                   @ cards @ [''</section>''])))
       else Inr (html_parts @ [''<h2>'' @ heading @ ''</h2><p>None found.</p>'']))\<close>

definition render_all_issues :: "(json \<Rightarrow> string) \<Rightarrow> json \<Rightarrow> py_error + string" where
  "render_all_issues r issues =
     bind (render_section r issues ''critical'' ''critical'' ''Critical issues''
             ''Critical Issues'' []) (\<lambda>html_parts.
     bind (render_section r issues ''high'' ''high'' ''High severity issues''
             ''High Issues'' html_parts) (\<lambda>html_parts.
     bind (render_section r issues ''warnings'' ''warning'' ''Warnings''
             ''Warnings'' html_parts) (\<lambda>html_parts.
     bind (render_section r issues ''suggestions'' ''suggestion'' ''Suggestions''
             ''Suggestions'' html_parts) (\<lambda>html_parts.
       Inr (join ''\<newline>'' html_parts)))))"

fun render_observations :: "(json \<Rightarrow> string) \<Rightarrow> json list \<Rightarrow> py_error + string list" where
  "render_observations r [] = Inr []"
| "render_observations r (obs # rest) =
     bind (py_get obs ''category'' (JStr ''General'')) (\<lambda>category.
     bind (py_get obs ''observation'' (JStr [])) (\<lambda>observation.
     bind (render_observations r rest) (\<lambda>obs_html.
       Inr ((''<li><strong>'' @ escape_html r category @ ''</strong>: ''
             @ escape_html r observation @ ''</li>'') # obs_html))))"

definition render_positive_observations :: "(json \<Rightarrow> string) \<Rightarrow> json \<Rightarrow> py_error + string" where
  \<open>render_positive_observations r observations =
     (if \<not> truthy observations then Inr []
      else bind (py_iter observations) (\<lambda>items.
           bind (render_observations r items) (\<lambda>obs_html.
             Inr (''<section role="region" aria-label="Positive observations">\<newline><h2>Positive Observations</h2>\<newline><div class="positive-observation">\<newline><ul>\<newline>''
                  @ concat obs_html
                  @ ''\<newline></ul>\<newline></div>\<newline></section>\<newline>''))))\<close>

definition render_summary_section ::
  "(json \<Rightarrow> string) \<Rightarrow> json \<Rightarrow> json \<Rightarrow> py_error + string" where
  \<open>render_summary_section r summary statistics =
     bind (py_get summary ''assessment'' (JStr ''N/A'')) (\<lambda>assessment.
     bind (py_get summary ''priority_focus'' (JStr ''N/A'')) (\<lambda>priority_focus.
     bind (py_get summary ''detailed_summary'' (JStr ''N/A'')) (\<lambda>detailed_summary.
     bind (py_get statistics ''critical'' (JInt 0)) (\<lambda>critical.
     bind (py_get statistics ''high'' (JInt 0)) (\<lambda>high.
     bind (py_get statistics ''warnings'' (JInt 0)) (\<lambda>warnings.
     bind (py_get statistics ''suggestions'' (JInt 0)) (\<lambda>suggestions.
       Inr (''<section role="region" aria-label="Summary">\<newline><h2>Summary</h2>\<newline><ul>\<newline><li><strong>Total Issues</strong>: ''
            @ py_str r critical
            @ '' Critical, ''
            @ py_str r high
            @ '' High, ''
            @ py_str r warnings
            @ '' Warnings, ''
            @ py_str r suggestions
            @ '' Suggestions</li>\<newline><li><strong>Overall Assessment</strong>: ''
            @ escape_html r assessment
            @ ''</li>\<newline><li><strong>Priority Focus</strong>: ''
            @ escape_html r priority_focus
            @ ''</li>\<newline></ul>\<newline><p>''
            @ escape_html r detailed_summary
            @ ''</p>\<newline></section>\<newline>''))))))))\<close>

text \<open>
  The whole document. The style sheet \<open>CSS_STYLES\<close> is a constant text of the script and
  is passed as \<open>css\<close>.
\<close>

definition render_html_template ::
  "(json \<Rightarrow> string) \<Rightarrow> string \<Rightarrow> json \<Rightarrow> py_error + string" where
  \<open>render_html_template r css review_data =
     bind (py_get review_data ''context'' (JDict [])) (\<lambda>context.
     bind (py_get review_data ''statistics'' (JDict [])) (\<lambda>statistics.
     bind (py_get review_data ''issues'' (JDict [])) (\<lambda>issues.
     bind (py_get review_data ''positive_observations'' (JList [])) (\<lambda>positive_observations.
     bind (py_get review_data ''summary'' (JDict [])) (\<lambda>summary.
     bind (render_context_section r context) (\<lambda>context_html.
     bind (render_statistics_section r statistics) (\<lambda>stats_html.
     bind (render_all_issues r issues) (\<lambda>issues_html.
     bind (render_positive_observations r positive_observations) (\<lambda>positive_html.
     bind (render_summary_section r summary statistics) (\<lambda>summary_html.
       Inr (''<!DOCTYPE html>\<newline><html lang="en">\<newline><head>\<newline>    <meta charset="UTF-8">\<newline>    <meta name="viewport" content="width=device-width, initial-scale=1.0">\<newline>    <meta name="description" content="AI Code Review Report - WCAG 2.1 Level AA Accessible">\<newline>    <title>Code Review Report</title>\<newline>    <style>\<newline>''
            @ css
            @ ''\<newline>    </style>\<newline></head>\<newline><body>\<newline>    <div class="container" role="main">\<newline>        <h1>Code Review Report</h1>\<newline>\<newline>        ''
            @ stats_html
            @ ''\<newline>        ''
            @ context_html
            @ ''\<newline>        ''
            @ issues_html
            @ ''\<newline>        ''
            @ positive_html
            @ ''\<newline>        ''
            @ summary_html
            @ ''\<newline>    </div>\<newline></body>\<newline></html>\<newline>'')))))))))))\<close>

text \<open>
  The text a result holds contains \<open>sub\<close>; a failed rendering contains nothing.
\<close>

definition html_contains :: "py_error + string \<Rightarrow> string \<Rightarrow> bool" where
  "html_contains res sub = (case res of Inr html \<Rightarrow> str_contains html sub | Inl e \<Rightarrow> False)"

text \<open>
  The value a statistics mapping declares under a key, 0 when the key is absent:
  \<open>statistics.get(key, 0)\<close> on a mapping.
\<close>

definition declared :: "(string \<times> json) list \<Rightarrow> string \<Rightarrow> json" where
  "declared kvs key = (case map_of kvs key of Some v \<Rightarrow> v | None \<Rightarrow> JInt 0)"

text \<open>
  An issue mapping without a usable location: the key \<open>location\<close> is absent, or its value
  is a string that \<open>parse_location\<close> does not accept.
\<close>

definition unlocated :: "(string \<times> json) list \<Rightarrow> bool" where
  "unlocated kvs =
     (case map_of kvs ''location'' of
        None \<Rightarrow> True
      | Some (JStr loc) \<Rightarrow> parse_location loc = Inr None
      | Some v \<Rightarrow> False)"

text \<open>
  The keys of the issue lists with the severity each is rendered under, and the description
  of an issue mapping as \<open>issue.get('description', 'No description')\<close> reads it.
\<close>

definition severity_sections :: "(string \<times> string) list" where
  "severity_sections =
     [(''critical'', ''critical''), (''high'', ''high''),
      (''warnings'', ''warning''), (''suggestions'', ''suggestion'')]"

definition description_of :: "(string \<times> json) list \<Rightarrow> json" where
  "description_of kvs =
     (case map_of kvs ''description'' of Some v \<Rightarrow> v | None \<Rightarrow> JStr ''No description'')"

text \<open>
  What the specification asks of a generated comment record: a mapping with an integer
  line of at least 1, a string message and a level among error, warning and info; and of
  a set of file comments: every record of every file is such a record.
\<close>

definition well_formed_comment :: "json \<Rightarrow> bool" where
  "well_formed_comment c =
     (\<exists>n m l. c = JDict [(''line'', JInt n), (''message'', JStr m), (''level'', JStr l)]
        \<and> 1 \<le> n \<and> l \<in> {''error'', ''warning'', ''info''})"

definition well_formed_comments :: "file_comments \<Rightarrow> bool" where
  "well_formed_comments fc = list_all (\<lambda>pc. list_all well_formed_comment (snd pc)) fc"

text \<open>
  An optional text field of a mapping: the key is absent or its value is a string.
\<close>

definition text_or_absent :: "(string \<times> json) list \<Rightarrow> string \<Rightarrow> bool" where
  "text_or_absent kvs k = (case map_of kvs k of None \<Rightarrow> True | Some v \<Rightarrow> is_str v)"

subsection \<open>Escaped text in the HTML document\<close>

text \<open>
  The entity \<open>escape_html\<close> puts in the place of a character, in the words of the
  specification: each of \<open>&\<close>, \<open><\<close>, \<open>>\<close>, \<open>"\<close>, \<open>'\<close> has one, any other character stays.
\<close>

definition entity :: "char \<Rightarrow> string" where
  "entity c =
     (if c = CHR ''&'' then ''&amp;''
      else if c = CHR ''<'' then ''&lt;''
      else if c = CHR ''>'' then ''&gt;''
      else if c = CHR 0x22 then ''&quot;''
      else if c = CHR 0x27 then ''&#39;''
      else [c])"

text \<open>
  The raw markup of a text: its characters \<open><\<close>, \<open>>\<close>, \<open>"\<close> and \<open>'\<close>, in their order.
\<close>

definition raw_markup :: "string \<Rightarrow> string" where
  "raw_markup s = filter (\<lambda>c. c \<in> set [CHR ''<'', CHR ''>'', CHR 0x22, CHR 0x27]) s"

text \<open>
  Two results of a renderer have the same markup: both are texts with the same raw markup,
  or both are the same exception.
\<close>

definition same_markup :: "py_error + string \<Rightarrow> py_error + string \<Rightarrow> bool" where
  "same_markup a b =
     (case a of
        Inr s \<Rightarrow> (case b of Inr t \<Rightarrow> raw_markup s = raw_markup t | Inl e \<Rightarrow> False)
      | Inl e \<Rightarrow> b = Inl e)"

text \<open>
  The free-text fields the HTML renderer interpolates, by the mapping that holds them.
\<close>

definition issue_text_keys :: "string list" where
  "issue_text_keys =
     [''description'', ''location'', ''risk'', ''remediation_priority'', ''why_matters'',
      ''recommendation'', ''impact'', ''suggestion'', ''benefit'']"

definition context_text_keys :: "string list" where
  "context_text_keys = [''change'', ''scope'', ''impact'']"

definition summary_text_keys :: "string list" where
  "summary_text_keys = [''assessment'', ''priority_focus'', ''detailed_summary'']"

definition observation_text_keys :: "string list" where
  "observation_text_keys = [''category'', ''observation'']"

text \<open>
  A document with its free text taken out: \<open>blank_text keys\<close> puts the empty string under
  each of the keys that a mapping has, \<open>blank_each\<close> does so in every element of a list,
  and \<open>blank_document\<close> in the context, in every issue of every list of issues, in every
  observation and in the summary. Everything else, the statistics among it, stays.
\<close>

definition blank_text :: "string list \<Rightarrow> json \<Rightarrow> json" where
  "blank_text keys x =
     (case x of
        JDict kvs \<Rightarrow> JDict (map (\<lambda>kv. (fst kv, if fst kv \<in> set keys then JStr [] else snd kv)) kvs)
      | _ \<Rightarrow> x)"

definition blank_each :: "string list \<Rightarrow> json \<Rightarrow> json" where
  "blank_each keys x = (case x of JList xs \<Rightarrow> JList (map (blank_text keys) xs) | _ \<Rightarrow> x)"

definition blank_issues :: "json \<Rightarrow> json" where
  "blank_issues x =
     (case x of
        JDict kvs \<Rightarrow> JDict (map (\<lambda>kv. (fst kv, blank_each issue_text_keys (snd kv))) kvs)
      | _ \<Rightarrow> x)"

definition blank_document :: "json \<Rightarrow> json" where
  "blank_document x =
     (case x of
        JDict kvs \<Rightarrow>
          JDict (map (\<lambda>kv. (fst kv,
                   if fst kv = ''context'' then blank_text context_text_keys (snd kv)
                   else if fst kv = ''issues'' then blank_issues (snd kv)
                   else if fst kv = ''positive_observations''
                   then blank_each observation_text_keys (snd kv)
                   else if fst kv = ''summary'' then blank_text summary_text_keys (snd kv)
                   else snd kv)) kvs)
      | _ \<Rightarrow> x)"

section \<open>Properties of the string functions\<close>

lemma startswith_append: "startswith (p @ r) p"
  by (induction p) auto

lemma startswith_iff: "startswith s p \<longleftrightarrow> (\<exists>r. s = p @ r)"
proof (induction s p rule: startswith.induct)
  case (1 s)
  then show ?case by simp
next
  case (2 p ps)
  then show ?case by simp
next
  case (3 c cs p ps)
  then show ?case by auto
qed

lemma replace_first_prefix: "replace_first p [] (p @ r) = r"
proof (cases "p @ r")
  case Nil
  then show ?thesis by simp
next
  case (Cons c cs)
  have "startswith (c # cs) p"
    using startswith_append [of p r] Cons by simp
  moreover have "drop (length p) (c # cs) = r"
    using Cons [symmetric] by simp
  ultimately show ?thesis
    using Cons by simp
qed

section \<open>Path normalization\<close>

lemma segments_nonempty: "segments s \<noteq> []"
  by (induction s) (auto split: list.splits)

lemma segments_no_slash: "CHR ''/'' \<notin> set s \<Longrightarrow> segments s = [s]"
  by (induction s) (auto split: list.splits)

lemma segments_unfold:
  "CHR ''/'' \<in> set s \<Longrightarrow>
   segments s = takeWhile (\<lambda>x. x \<noteq> CHR ''/'') s # segments (tl (dropWhile (\<lambda>x. x \<noteq> CHR ''/'') s))"
proof (induction s)
  case Nil
  then show ?case by simp
next
  case (Cons c cs)
  show ?case
  proof (cases "c = CHR ''/''")
    case True
    then show ?thesis by simp
  next
    case False
    then have "CHR ''/'' \<in> set cs" using Cons.prems by auto
    then show ?thesis using Cons.IH False by simp
  qed
qed

lemma join_segments: "join ''/'' (segments s) = s"
proof (induction s)
  case Nil
  then show ?case by simp
next
  case (Cons c cs)
  obtain w ws where seg: "segments cs = w # ws"
    using segments_nonempty [of cs] by (cases "segments cs") auto
  show ?case
  proof (cases "c = CHR ''/''")
    case True
    then show ?thesis using Cons.IH seg by simp
  next
    case False
    then show ?thesis using Cons.IH seg by (cases ws) auto
  qed
qed

lemma py_split_two:
  "(if length (py_split CHR ''/'' 2 r) \<ge> 3 then py_split CHR ''/'' 2 r ! 2 else r) = drop_org_project r"
proof (cases "CHR ''/'' \<in> set r")
  case False
  then show ?thesis
    by (simp add: numeral_2_eq_2 drop_org_project_def segments_no_slash)
next
  case True
  define r1 where "r1 = tl (dropWhile (\<lambda>x. x \<noteq> CHR ''/'') r)"
  have s1: "segments r = takeWhile (\<lambda>x. x \<noteq> CHR ''/'') r # segments r1"
    using segments_unfold [OF True] by (simp add: r1_def)
  show ?thesis
  proof (cases "CHR ''/'' \<in> set r1")
    case False
    then show ?thesis using True s1
      by (simp add: numeral_2_eq_2 drop_org_project_def segments_no_slash r1_def)
  next
    case t2: True
    define r2 where "r2 = tl (dropWhile (\<lambda>x. x \<noteq> CHR ''/'') r1)"
    have s2: "segments r1 = takeWhile (\<lambda>x. x \<noteq> CHR ''/'') r1 # segments r2"
      using segments_unfold [OF t2] by (simp add: r2_def)
    have "length (segments r2) \<ge> 1"
      using segments_nonempty [of r2] by (cases "segments r2") auto
    then show ?thesis using True t2 s1 s2 join_segments [of r2]
      by (simp add: numeral_2_eq_2 numeral_3_eq_3 drop_org_project_def r1_def [symmetric] r2_def [symmetric])
  qed
qed

lemma strip_prefix_step:
  "strip_zuul_prefix (pfx # rest) (pfx @ r) = Some (drop_org_project r)"
  using py_split_two [of r]
  by (simp add: startswith_append replace_first_prefix Let_def)

lemma normalize_zuul1:
  "normalize_file_path (''/home/zuul/src/review.opendev.org/'' @ r) = drop_org_project r"
  unfolding normalize_file_path_def zuul_prefixes_def
  by (simp only: strip_prefix_step option.case)

lemma normalize_zuul2:
  "normalize_file_path (''/home/zuul/src/opendev.org/'' @ r) = drop_org_project r"
proof -
  have "\<not> startswith (''/home/zuul/src/opendev.org/'' @ r) ''/home/zuul/src/review.opendev.org/''"
    by simp
  then have "strip_zuul_prefix zuul_prefixes (''/home/zuul/src/opendev.org/'' @ r) = Some (drop_org_project r)"
    unfolding zuul_prefixes_def
    by (simp only: strip_zuul_prefix.simps(2) [of "''/home/zuul/src/review.opendev.org/''"] if_False strip_prefix_step)
  then show ?thesis by (simp add: normalize_file_path_def)
qed

lemma normalize_zuul3:
  assumes "\<not> startswith (''/home/zuul/src/'' @ r) ''/home/zuul/src/review.opendev.org/''"
    and "\<not> startswith (''/home/zuul/src/'' @ r) ''/home/zuul/src/opendev.org/''"
  shows "normalize_file_path (''/home/zuul/src/'' @ r) = drop_org_project r"
proof -
  have "strip_zuul_prefix zuul_prefixes (''/home/zuul/src/'' @ r) = Some (drop_org_project r)"
    unfolding zuul_prefixes_def using assms
    by (simp only: strip_zuul_prefix.simps(2) [of "''/home/zuul/src/review.opendev.org/''"]
        strip_zuul_prefix.simps(2) [of "''/home/zuul/src/opendev.org/''"] if_False strip_prefix_step)
  then show ?thesis by (simp add: normalize_file_path_def)
qed

lemma normalize_relative:
  assumes "\<not> startswith p ''/''"
  shows "normalize_file_path p = p"
proof -
  have "\<And>q r. \<not> startswith p (CHR ''/'' # q)"
    using assms by (cases p) auto
  then have "strip_zuul_prefix zuul_prefixes p = None"
    by (simp add: zuul_prefixes_def)
  then show ?thesis using assms by (simp add: normalize_file_path_def)
qed

text \<open>
  Claim C5. A path that begins with a known execution-root prefix loses that prefix (the
  most specific one that matches) and then its first two segments when at least three
  segments remain; a path that does not begin with a slash is returned unchanged. The two
  locations of the specification normalize as it says.
\<close>

theorem normalize_file_path_policy:
  "(pfx \<in> set zuul_prefixes \<and> (\<forall>q \<in> set zuul_prefixes. startswith (pfx @ r) q \<longrightarrow> length q \<le> length pfx)
      \<longrightarrow> normalize_file_path (pfx @ r) = drop_org_project r)
   \<and> (\<not> startswith p ''/'' \<longrightarrow> normalize_file_path p = p)
   \<and> parse_location ''/home/zuul/src/opendev.org/openstack/nova/nova/compute/manager.py:140''
       = Inr (Some (''nova/compute/manager.py'', 140))
   \<and> parse_location ''roles/ai_code_review/tasks/main.yaml:25''
       = Inr (Some (''roles/ai_code_review/tasks/main.yaml'', 25))"
proof (intro conjI impI)
  assume h: "pfx \<in> set zuul_prefixes \<and> (\<forall>q \<in> set zuul_prefixes. startswith (pfx @ r) q \<longrightarrow> length q \<le> length pfx)"
  then consider "pfx = ''/home/zuul/src/review.opendev.org/''" | "pfx = ''/home/zuul/src/opendev.org/''"
    | "pfx = ''/home/zuul/src/''"
    by (auto simp: zuul_prefixes_def)
  then show "normalize_file_path (pfx @ r) = drop_org_project r"
  proof cases
    case 1
    then show ?thesis using normalize_zuul1 by simp
  next
    case 2
    then show ?thesis using normalize_zuul2 by simp
  next
    case 3
    have "\<not> startswith (pfx @ r) ''/home/zuul/src/review.opendev.org/''"
      and "\<not> startswith (pfx @ r) ''/home/zuul/src/opendev.org/''"
      using h 3 by (auto simp: zuul_prefixes_def)
    then show ?thesis using normalize_zuul3 [of r] 3 by simp
  qed
next
  assume "\<not> startswith p ''/''"
  then show "normalize_file_path p = p" by (rule normalize_relative)
next
  show "parse_location ''/home/zuul/src/opendev.org/openstack/nova/nova/compute/manager.py:140''
       = Inr (Some (''nova/compute/manager.py'', 140))"
    by code_simp
next
  show "parse_location ''roles/ai_code_review/tasks/main.yaml:25''
       = Inr (Some (''roles/ai_code_review/tasks/main.yaml'', 25))"
    by code_simp
qed

theorem normalize_file_path_policy_witness:
  "normalize_file_path (''/home/zuul/src/'' @ ''openstack/nova/nova/a.py'') = ''nova/a.py''
   \<and> normalize_file_path ''roles/x.py'' = ''roles/x.py''"
proof -
  have h1: "''/home/zuul/src/'' \<in> set zuul_prefixes
      \<and> (\<forall>q \<in> set zuul_prefixes.
            startswith (''/home/zuul/src/'' @ ''openstack/nova/nova/a.py'') q
            \<longrightarrow> length q \<le> length ''/home/zuul/src/'')"
    by (simp add: zuul_prefixes_def)
  have h2: "\<not> startswith ''roles/x.py'' ''/''"
    by simp
  have d: "drop_org_project ''openstack/nova/nova/a.py'' = ''nova/a.py''"
    by code_simp
  show ?thesis
    using normalize_file_path_policy [of "''/home/zuul/src/''" "''openstack/nova/nova/a.py''"
        "''roles/x.py''"] h1 h2 d
    by simp
qed

section \<open>Severity mapping and location parsing\<close>

lemma lower_critical: "lower ''critical'' = ''critical''" by code_simp
lemma lower_high: "lower ''high'' = ''high''" by code_simp
lemma lower_warning: "lower ''warning'' = ''warning''" by code_simp
lemma lower_suggestion: "lower ''suggestion'' = ''suggestion''" by code_simp

text \<open>
  Claim C9, as amended. \<open>map_severity_to_level\<close> is total with values among error,
  warning and info. It lower-cases its argument first: critical and high in any letter
  case give error, warning in any letter case gives warning, and every other string,
  suggestion included, gives info.
\<close>

theorem map_severity_to_level_cases:
  "map_severity_to_level s \<in> {''error'', ''warning'', ''info''}
   \<and> map_severity_to_level s =
       (if lower s = ''critical'' \<or> lower s = ''high'' then ''error''
        else if lower s = ''warning'' then ''warning'' else ''info'')
   \<and> map_severity_to_level ''critical'' = ''error''
   \<and> map_severity_to_level ''high'' = ''error''
   \<and> map_severity_to_level ''warning'' = ''warning''
   \<and> map_severity_to_level ''suggestion'' = ''info''"
  by (simp add: map_severity_to_level_def severity_map_def lower_critical lower_high
      lower_warning lower_suggestion)

text \<open>
  Claim C9 as stated fails: \<open>CRITICAL\<close> is none of the four listed inputs and is not
  mapped to info.
\<close>

theorem map_severity_to_level_counterexample:
  "''CRITICAL'' \<notin> {''critical'', ''high'', ''warning'', ''suggestion''}
   \<and> map_severity_to_level ''CRITICAL'' = ''error'' \<and> ''error'' \<noteq> ''info''"
  by code_simp

lemma takeWhile_app: "(\<And>x. x \<in> set xs \<Longrightarrow> P x) \<Longrightarrow> takeWhile P (xs @ ys) = xs @ takeWhile P ys"
  by (induction xs) auto
lemma dropWhile_app: "(\<And>x. x \<in> set xs \<Longrightarrow> P x) \<Longrightarrow> dropWhile P (xs @ ys) = dropWhile P ys"
  by (induction xs) auto

lemma bind_Inr_iff: "bind m f = Inr y \<longleftrightarrow> (\<exists>x. m = Inr x \<and> f x = Inr y)"
  by (cases m) (auto simp: bind_def)

lemma bind_Inr [simp]: "bind (Inr x) f = f x"
  by (simp add: bind_def)

lemma bind_Inl [simp]: "bind (Inl e) f = Inl e"
  by (simp add: bind_def)

lemma dash_not_digit: "\<not> is_digit CHR ''-''" by (simp add: is_digit_def)
lemma newline_not_digit: "\<not> is_digit CHR ''\<newline>''" by (simp add: is_digit_def)

lemma match_location_grammar:
  assumes "path \<noteq> []" "CHR '':'' \<notin> set path" "digit_string line" "range_suffix sfx"
  shows "match_location (path @ CHR '':'' # line @ sfx) = Some (path, line)"
proof -
  have p1: "takeWhile (\<lambda>c. c \<noteq> CHR '':'') (path @ CHR '':'' # line @ sfx) = path"
    using assms(2) by (subst takeWhile_app) auto
  have p2: "dropWhile (\<lambda>c. c \<noteq> CHR '':'') (path @ CHR '':'' # line @ sfx) = CHR '':'' # line @ sfx"
    using assms(2) by (subst dropWhile_app) auto
  have dl: "\<And>x. x \<in> set line \<Longrightarrow> is_digit x" and ln: "line \<noteq> []"
    using assms(3) by (auto simp: digit_string_def)
  from assms(4) consider "sfx = []" | e where "digit_string e" "sfx = CHR ''-'' # e"
    by (auto simp: range_suffix_def)
  then show ?thesis
  proof cases
    case 1
    have tw: "takeWhile is_digit line = line" and dw: "dropWhile is_digit line = []"
      using dl by simp_all
    show ?thesis using assms(1) ln
      by (simp add: 1 p1 [unfolded 1, simplified] p2 [unfolded 1, simplified] tw dw
          match_location_def Let_def at_end_def)
  next
    case 2
    have de: "\<And>x. x \<in> set e \<Longrightarrow> is_digit x" and en: "e \<noteq> []"
      using 2(1) by (auto simp: digit_string_def)
    have t1: "takeWhile is_digit (line @ CHR ''-'' # e) = line"
      using dl by (subst takeWhile_app) (auto simp: dash_not_digit)
    have d1: "dropWhile is_digit (line @ CHR ''-'' # e) = CHR ''-'' # e"
      using dl by (subst dropWhile_app) (auto simp: dash_not_digit)
    have t2: "takeWhile is_digit e = e" using de by simp
    have d2: "dropWhile is_digit e = []" using de by simp
    have de': "\<forall>x \<in> set e. is_digit x" using de by blast
    show ?thesis using assms(1) ln en de'
      by (simp add: 2(2) p1 [unfolded 2(2)] p2 [unfolded 2(2)] t1 d1 t2 d2
          match_location_def Let_def at_end_def)
  qed
qed

lemma at_end_split:
  assumes "at_end (dropWhile P xs)"
  shows "xs = takeWhile P xs \<or> xs = takeWhile P xs @ [CHR ''\<newline>'']"
proof -
  have id: "takeWhile P xs @ dropWhile P xs = xs" by simp
  from assms consider "dropWhile P xs = []" | "dropWhile P xs = [CHR ''\<newline>'']"
    by (auto simp: at_end_def)
  then show ?thesis
  proof cases
    case 1
    then show ?thesis using id by (metis append_Nil2)
  next
    case 2
    then show ?thesis using id by metis
  qed
qed

lemma match_location_sound:
  assumes "match_location s = Some (p, l)"
  shows "location_grammar s \<or> (\<exists>t. s = t @ [CHR ''\<newline>''] \<and> location_grammar t)"
proof -
  define r1 where "r1 = dropWhile (\<lambda>c. c \<noteq> CHR '':'') s"
  define path where "path = takeWhile (\<lambda>c. c \<noteq> CHR '':'') s"
  define line where "line = takeWhile is_digit (tl r1)"
  define r2 where "r2 = dropWhile is_digit (tl r1)"
  have ne: "path \<noteq> []" "r1 \<noteq> []" "line \<noteq> []"
    using assms unfolding match_location_def Let_def path_def r1_def line_def
    by (auto split: if_splits)
  have "hd r1 = CHR '':''"
    using ne(2) hd_dropWhile [of "\<lambda>c. c \<noteq> CHR '':''" s] by (simp add: r1_def)
  then have r1: "r1 = CHR '':'' # tl r1" using ne(2) by (cases r1) auto
  have s1: "s = path @ CHR '':'' # line @ r2"
    using takeWhile_dropWhile_id [of "\<lambda>c. c \<noteq> CHR '':''" s]
      takeWhile_dropWhile_id [of is_digit "tl r1"] r1
    by (simp add: path_def r1_def [symmetric] line_def r2_def)
  have pc: "CHR '':'' \<notin> set path"
    unfolding path_def by (auto dest: set_takeWhileD)
  have dl: "digit_string line"
    using ne(3) unfolding digit_string_def line_def by (auto dest: set_takeWhileD)
  have gr: "\<And>sfx. range_suffix sfx \<Longrightarrow> location_grammar (path @ CHR '':'' # line @ sfx)"
    using ne(1) pc dl unfolding location_grammar_def by blast
  have cases: "at_end r2 \<or> (\<exists>r3. r2 = CHR ''-'' # r3 \<and> takeWhile is_digit r3 \<noteq> [] \<and> at_end (dropWhile is_digit r3))"
    using assms ne unfolding match_location_def Let_def
    by (auto simp: path_def r1_def line_def r2_def split: if_splits list.splits)
  then show ?thesis
  proof
    assume "at_end r2"
    then consider "r2 = []" | "r2 = [CHR ''\<newline>'']" by (auto simp: at_end_def)
    then show ?thesis
    proof cases
      case 1
      then show ?thesis using s1 gr [of "[]"] by (simp add: range_suffix_def)
    next
      case 2
      have "location_grammar (path @ CHR '':'' # line @ [])"
        using gr [of "[]"] by (simp add: range_suffix_def)
      then show ?thesis using s1 2 by auto
    qed
  next
    assume "\<exists>r3. r2 = CHR ''-'' # r3 \<and> takeWhile is_digit r3 \<noteq> [] \<and> at_end (dropWhile is_digit r3)"
    then obtain r3 where r3: "r2 = CHR ''-'' # r3" "takeWhile is_digit r3 \<noteq> []"
      "at_end (dropWhile is_digit r3)" by blast
    define e where "e = takeWhile is_digit r3"
    have de: "digit_string e"
      using r3(2) unfolding digit_string_def e_def by (auto dest: set_takeWhileD)
    then have rs: "range_suffix (CHR ''-'' # e)" by (auto simp: range_suffix_def)
    from at_end_split [OF r3(3)] show ?thesis
    proof
      assume "r3 = takeWhile is_digit r3"
      then have "s = path @ CHR '':'' # line @ CHR ''-'' # e"
        using s1 r3(1) by (simp add: e_def)
      then show ?thesis using gr [OF rs] by simp
    next
      assume "r3 = takeWhile is_digit r3 @ [CHR ''\<newline>'']"
      then have "s = (path @ CHR '':'' # line @ CHR ''-'' # e) @ [CHR ''\<newline>'']"
        using s1 r3(1) by (simp add: e_def)
      then show ?thesis using gr [OF rs] by blast
    qed
  qed
qed

lemma location_grammar_colon: "location_grammar s \<Longrightarrow> CHR '':'' \<in> set s"
  by (auto simp: location_grammar_def)

lemma parse_location_of_grammar:
  assumes "path \<noteq> []" "CHR '':'' \<notin> set path" "digit_string line" "range_suffix sfx"
  shows "parse_location (path @ CHR '':'' # line @ sfx)
           = (if length line \<le> 4300
              then Inr (Some (normalize_file_path path, int_of_digits line))
              else Inl ValueError)"
  using match_location_grammar [OF assms]
  by (simp add: parse_location_def py_int_def max_str_digits_def)

lemma parse_location_no_match:
  assumes "\<not> location_grammar s" "\<not> (\<exists>t. s = t @ [CHR ''\<newline>''] \<and> location_grammar t)"
  shows "parse_location s = Inr None"
proof -
  have "match_location s = None"
  proof (cases "match_location s")
    case None
    then show ?thesis .
  next
    case (Some pl)
    then show ?thesis using match_location_sound [of s "fst pl" "snd pl"] assms by simp
  qed
  then show ?thesis by (simp add: parse_location_def)
qed

lemma process_issue_skips:
  assumes "map_of kvs ''location'' = Some (JStr loc)" "parse_location loc = Inr (Some (p, n))"
    "p = [] \<or> n = 0"
  shows "process_issue r label fc (JDict kvs) = Inr fc"
  using assms by (auto simp: process_issue_def)


lemma parse_x0: "parse_location ''x.py:0'' = Inr (Some (''x.py'', 0))" by code_simp


lemma location_grammar_last: "location_grammar s \<Longrightarrow> is_digit (last s)"
  by (auto simp: location_grammar_def range_suffix_def digit_string_def)

lemma digit_string_ones: "digit_string (replicate 4301 CHR ''1'')"
  by (simp add: digit_string_def is_digit_def)


section \<open>The generated payload passes the schema check\<close>

lemma map_severity_to_level_range:
  "map_severity_to_level s \<in> {''error'', ''warning'', ''info''}"
  by (simp add: map_severity_to_level_def severity_map_def)

lemma well_formed_validate: "well_formed_comment c \<Longrightarrow> validate_comment c"
  by (auto simp: well_formed_comment_def validate_comment_def)

lemma validate_comments_all: "list_all well_formed_comment cs \<Longrightarrow> validate_comments cs"
  by (induction cs) (auto simp: well_formed_validate)

lemma validate_files_all:
  "well_formed_comments fc \<Longrightarrow> validate_files (map (\<lambda>pc. (fst pc, JList (snd pc))) fc)"
  unfolding well_formed_comments_def
  by (induction fc) (auto simp: validate_comments_all)

lemma add_comment_well_formed:
  "well_formed_comments fc \<Longrightarrow> well_formed_comment c \<Longrightarrow> well_formed_comments (add_comment p c fc)"
  unfolding well_formed_comments_def
  by (induction p c fc rule: add_comment.induct) auto

lemma process_issue_well_formed:
  assumes "well_formed_comments fc" and "process_issue r label fc issue = Inr fc'"
  shows "well_formed_comments fc'"
proof -
  from assms(2) obtain location where loc: "py_get issue ''location'' (JStr []) = Inr location"
    and rest: "(if \<not> truthy location then Inr fc
       else (case location of
               JStr loc \<Rightarrow>
                 bind (parse_location loc) (\<lambda>parsed.
                   case parsed of
                     None \<Rightarrow> Inr fc
                   | Some (file_path, line_number) \<Rightarrow>
                       if file_path = [] \<or> line_number = 0 then Inr fc
                       else bind (format_issue_message r issue label) (\<lambda>message.
                              Inr (add_comment file_path
                                     (JDict [(''line'', JInt (int line_number)),
                                             (''message'', JStr message),
                                             (''level'', JStr (map_severity_to_level label))])
                                     fc)))
             | _ \<Rightarrow> Inl TypeError)) = Inr fc'"
    unfolding process_issue_def bind_Inr_iff by blast
  show ?thesis
  proof (cases "fc' = fc")
    case True
    then show ?thesis using assms(1) by simp
  next
    case False
    with rest obtain loc where
      "bind (parse_location loc) (\<lambda>parsed.
         case parsed of
           None \<Rightarrow> Inr fc
         | Some (file_path, line_number) \<Rightarrow>
             if file_path = [] \<or> line_number = 0 then Inr fc
             else bind (format_issue_message r issue label) (\<lambda>message.
                    Inr (add_comment file_path
                           (JDict [(''line'', JInt (int line_number)),
                                   (''message'', JStr message),
                                   (''level'', JStr (map_severity_to_level label))])
                           fc))) = Inr fc'"
      by (auto split: if_splits json.splits)
    then obtain parsed where
      "(case parsed of
           None \<Rightarrow> Inr fc
         | Some (file_path, line_number) \<Rightarrow>
             if file_path = [] \<or> line_number = 0 then Inr fc
             else bind (format_issue_message r issue label) (\<lambda>message.
                    Inr (add_comment file_path
                           (JDict [(''line'', JInt (int line_number)),
                                   (''message'', JStr message),
                                   (''level'', JStr (map_severity_to_level label))])
                           fc))) = Inr fc'"
      unfolding bind_Inr_iff by blast
    with False obtain p n where "n \<noteq> 0" and
      "bind (format_issue_message r issue label) (\<lambda>message.
         Inr (add_comment p
                (JDict [(''line'', JInt (int n)), (''message'', JStr message),
                        (''level'', JStr (map_severity_to_level label))])
                fc)) = Inr fc'"
      by (cases parsed) (auto split: if_splits)
    then obtain message where
      "fc' = add_comment p (JDict [(''line'', JInt (int n)), (''message'', JStr message),
                (''level'', JStr (map_severity_to_level label))]) fc" and "n \<noteq> 0"
      unfolding bind_Inr_iff by auto
    moreover have "well_formed_comment (JDict [(''line'', JInt (int n)), (''message'', JStr message),
                (''level'', JStr (map_severity_to_level label))])"
      using \<open>n \<noteq> 0\<close> map_severity_to_level_range [of label]
      unfolding well_formed_comment_def by auto
    ultimately show ?thesis using assms(1) add_comment_well_formed by simp
  qed
qed

lemma process_issues_well_formed:
  "well_formed_comments fc \<Longrightarrow> process_issues r label items fc = Inr fc' \<Longrightarrow> well_formed_comments fc'"
proof (induction items arbitrary: fc)
  case Nil
  then show ?case by simp
next
  case (Cons issue rest)
  from Cons.prems(2) obtain fc1 where 1: "process_issue r label fc issue = Inr fc1"
    and 2: "process_issues r label rest fc1 = Inr fc'"
    by (auto simp: bind_Inr_iff)
  from process_issue_well_formed [OF Cons.prems(1) 1] Cons.IH 2 show ?case by blast
qed

lemma process_severities_well_formed:
  "well_formed_comments fc \<Longrightarrow> process_severities r issues sevs fc = Inr fc' \<Longrightarrow> well_formed_comments fc'"
proof (induction sevs arbitrary: fc)
  case Nil
  then show ?case by simp
next
  case (Cons sev rest)
  from Cons.prems(2) obtain items fc1 where
    "process_issues r (rstrip CHR ''s'' sev) items fc = Inr fc1"
    and 2: "process_severities r issues rest fc1 = Inr fc'"
    by (auto simp: bind_Inr_iff)
  then have "well_formed_comments fc1"
    using process_issues_well_formed Cons.prems(1) by blast
  then show ?case using Cons.IH 2 by blast
qed

lemma extract_well_formed:
  "extract_file_comments r review_data = Inr fc \<Longrightarrow> well_formed_comments fc"
proof -
  assume "extract_file_comments r review_data = Inr fc"
  then obtain issues where
    "process_severities r issues [''critical'', ''high'', ''warnings'', ''suggestions''] [] = Inr fc"
    unfolding extract_file_comments_def bind_Inr_iff by blast
  moreover have "well_formed_comments []"
    by (simp add: well_formed_comments_def)
  ultimately show ?thesis
    using process_severities_well_formed by blast
qed

lemma validate_generated:
  "validate_zuul_schema (JDict [(''zuul'',
       JDict [(''file_comments'', JDict (map (\<lambda>pc. (fst pc, JList (snd pc))) fc))])])
   = Inr (validate_files (map (\<lambda>pc. (fst pc, JList (snd pc))) fc))"
  by (simp add: validate_zuul_schema_def)

text \<open>
  Claim C10. Whenever \<open>generate_zuul_return_data\<close> returns a payload, the payload passes
  \<open>validate_zuul_schema\<close>: it is the mapping \<open>zuul\<close> over \<open>file_comments\<close> over lists, and
  every record has an integer line of at least 1, a string message and a level among
  error, warning and info.
\<close>

theorem generated_payload_validates:
  "generate_zuul_return_data r review_data = Inr payload \<Longrightarrow>
   validate_zuul_schema payload = Inr True
   \<and> (\<exists>fc. payload = JDict [(''zuul'',
              JDict [(''file_comments'', JDict (map (\<lambda>pc. (fst pc, JList (snd pc))) fc))])]
        \<and> well_formed_comments fc)"
proof -
  assume "generate_zuul_return_data r review_data = Inr payload"
  then obtain fc where fc: "extract_file_comments r review_data = Inr fc"
    and p: "payload = JDict [(''zuul'',
              JDict [(''file_comments'', JDict (map (\<lambda>pc. (fst pc, JList (snd pc))) fc))])]"
    unfolding generate_zuul_return_data_def by (auto simp: bind_Inr_iff)
  have wf: "well_formed_comments fc" using fc by (rule extract_well_formed)
  have "validate_zuul_schema payload = Inr True"
    unfolding p validate_generated using validate_files_all [OF wf] by simp
  then show ?thesis using p wf by blast
qed

theorem generated_payload_validates_witness:
  "validate_zuul_schema
     (JDict [(''zuul'', JDict [(''file_comments'', JDict [(''x.py'',
        JList [JDict [(''line'', JInt 10),
                      (''message'', JStr ''No description\<newline>\<newline>**Severity**: HIGH | **Confidence**: 0.0\<newline>''),
                      (''level'', JStr ''error'')]])])])])
   = Inr True"
proof -
  have g: "generate_zuul_return_data (\<lambda>x. [])
             (JDict [(''issues'', JDict [(''high'', JList [JDict [(''location'', JStr ''x.py:10'')]])])])
           = Inr (JDict [(''zuul'', JDict [(''file_comments'', JDict [(''x.py'',
        JList [JDict [(''line'', JInt 10),
                      (''message'', JStr ''No description\<newline>\<newline>**Severity**: HIGH | **Confidence**: 0.0\<newline>''),
                      (''level'', JStr ''error'')]])])])])"
    by code_simp
  from generated_payload_validates [OF g] show ?thesis by simp
qed

section \<open>The message of a comment\<close>

lemma str_contains_append: "str_contains (a @ s @ b) s"
proof (induction a)
  case Nil
  show ?case by (cases "s @ b") (use startswith_append [of s b] in auto)
next
  case (Cons c a)
  then show ?case by simp
qed

lemma join_contains: "s \<in> set ss \<Longrightarrow> \<exists>a b. join sep ss = a @ s @ b"
proof (induction sep ss rule: join.induct)
  case (1 sep)
  then show ?case by simp
next
  case (2 sep p)
  then have "join sep [p] = [] @ s @ []" by simp
  then show ?case by blast
next
  case (3 sep p q ps)
  show ?case
  proof (cases "s = p")
    case True
    then have "join sep (p # q # ps) = [] @ s @ (sep @ join sep (q # ps))" by simp
    then show ?thesis by blast
  next
    case False
    then have "s \<in> set (q # ps)" using 3(2) by auto
    then obtain a b where "join sep (q # ps) = a @ s @ b" using 3(1) by blast
    then have "join sep (p # q # ps) = (p @ sep @ a) @ s @ b" by simp
    then show ?thesis by blast
  qed
qed

lemma join_str_contains: "s \<in> set ss \<Longrightarrow> str_contains (join sep ss) s"
  using join_contains [of s ss sep] str_contains_append by metis

lemma the_strs_append:
  "the_strs (xs @ ys) =
     (case the_strs xs of None \<Rightarrow> None
      | Some a \<Rightarrow> (case the_strs ys of None \<Rightarrow> None | Some b \<Rightarrow> Some (a @ b)))"
  by (induction xs rule: the_strs.induct) (auto split: option.splits)

lemma key_in_dict: "k \<in> fst ` set kvs \<longleftrightarrow> map_of kvs k \<noteq> None"
  by (simp add: map_of_eq_None_iff)

lemma append_field_dict:
  "append_field r (JDict kvs) key label blank parts =
     Inr (parts @ (case map_of kvs key of
                     None \<Rightarrow> []
                   | Some v \<Rightarrow> JStr (label @ py_str r v) # (if blank then [JStr []] else [])))"
  unfolding append_field_def
  by (cases "map_of kvs key") (simp_all add: key_in_dict)

lemma append_block_dict:
  "append_block (JDict kvs) key header parts =
     Inr (parts @ (case map_of kvs key of None \<Rightarrow> [] | Some v \<Rightarrow> [JStr header, v]))"
  unfolding append_block_def
  by (cases "map_of kvs key") (simp_all add: key_in_dict)

lemma upper_critical: "upper ''critical'' = ''CRITICAL''" by code_simp

lemma format_critical_message:
  assumes conf: "map_of kvs ''confidence'' = Some c" "format_1f c = Inr cs"
    and risk: "map_of kvs ''risk'' = Some risk"
    and desc: "text_or_absent kvs ''description''"
    and reco: "text_or_absent kvs ''recommendation''"
  shows "\<exists>d rest. format_issue_message r (JDict kvs) ''critical'' =
           Inr (join ''\<newline>'' ([d, [], ''**Severity**: CRITICAL | **Confidence**: '' @ cs, [],
                                   ''**Risk**: '' @ py_str r risk, []] @ rest))"
proof -
  obtain d where d: "(case map_of kvs ''description'' of Some v \<Rightarrow> v | None \<Rightarrow> JStr ''No description'') = JStr d"
    using desc unfolding text_or_absent_def
    by (cases "map_of kvs ''description''") (auto elim: is_str.elims)
  obtain b where b: "the_strs (case map_of kvs ''recommendation'' of None \<Rightarrow> []
                     | Some v \<Rightarrow> [JStr ''**Recommendation**:'', v]) = Some b"
    using reco unfolding text_or_absent_def
    by (cases "map_of kvs ''recommendation''") (auto elim: is_str.elims)
  obtain p where p: "the_strs (case map_of kvs ''remediation_priority'' of None \<Rightarrow> []
                     | Some v \<Rightarrow> JStr (''**Priority**: '' @ py_str r v) # (if False then [JStr []] else [])) = Some p"
    by (cases "map_of kvs ''remediation_priority''") auto
  obtain w where w: "the_strs (case map_of kvs ''why_matters'' of None \<Rightarrow> []
                     | Some v \<Rightarrow> JStr (''**Why This Matters**: '' @ py_str r v) # (if True then [JStr []] else [])) = Some w"
    by (cases "map_of kvs ''why_matters''") auto
  have "format_issue_message r (JDict kvs) ''critical'' =
           Inr (join ''\<newline>'' ([d, [], ''**Severity**: CRITICAL | **Confidence**: '' @ cs, [],
                                   ''**Risk**: '' @ py_str r risk, []] @ (p @ w @ b)))"
    unfolding format_issue_message_def
    by (simp add: conf risk d append_field_dict append_block_dict upper_critical py_join_def
        the_strs_append b p w bind_def)
  then show ?thesis by blast
qed

lemma parse_x10: "parse_location ''x.py:10'' = Inr (Some (''x.py'', 10))" by code_simp
lemma rstrip_critical: "rstrip CHR ''s'' ''critical'' = ''critical''" by code_simp
lemma rstrip_high: "rstrip CHR ''s'' ''high'' = ''high''" by code_simp
lemma rstrip_warnings: "rstrip CHR ''s'' ''warnings'' = ''warning''" by code_simp
lemma rstrip_suggestions: "rstrip CHR ''s'' ''suggestions'' = ''suggestion''" by code_simp
lemma level_critical: "map_severity_to_level ''critical'' = ''error''" by code_simp
lemma digits_0: "digits_of_nat 0 = ''0''" by (simp add: digits_of_nat.simps)
lemma digits_9: "digits_of_nat 9 = ''9''" by (simp add: digits_of_nat.simps)
lemma format_095: "format_1f (JFloat (Finite False 8556839292003942 (- 53))) = Inr ''0.9''"
  by (simp add: round_half_even_def digits_0 digits_9)

lemma single_critical_issue:
  assumes "process_issue r ''critical'' [] issue = Inr fc"
  shows "extract_file_comments r (JDict [(''issues'', JDict [(''critical'', JList [issue])])]) = Inr fc"
  unfolding extract_file_comments_def
  by (simp add: assms rstrip_critical)

text \<open>
  Claim C1, as amended. For every critical issue with confidence 0.95, location
  \<open>x.py:10\<close> and risk \<open>High\<close> whose description and recommendation are text or absent,
  the renderer produces exactly one comment record, under the path \<open>x.py\<close>, with line 10
  and level error; its message contains \<open>**Severity**: CRITICAL | **Confidence**: 0.9\<close>
  and \<open>**Risk**: High\<close>, the labels in Markdown bold and the confidence as Python
  formats the float 0.95 with one decimal.
\<close>

theorem critical_issue_comment:
  assumes "map_of kvs ''confidence'' = Some (JFloat (Finite False 8556839292003942 (- 53)))"
    and "map_of kvs ''location'' = Some (JStr ''x.py:10'')"
    and "map_of kvs ''risk'' = Some (JStr ''High'')"
    and "text_or_absent kvs ''description''"
    and "text_or_absent kvs ''recommendation''"
  shows "\<exists>m. extract_file_comments r (JDict [(''issues'', JDict [(''critical'', JList [JDict kvs])])])
               = Inr [(''x.py'', [JDict [(''line'', JInt 10), (''message'', JStr m),
                                          (''level'', JStr ''error'')]])]
             \<and> str_contains m ''**Severity**: CRITICAL | **Confidence**: 0.9''
             \<and> str_contains m ''**Risk**: High''"
proof -
  from format_critical_message [OF assms(1) format_095 assms(3) assms(4) assms(5), of r]
  obtain d rest where m: "format_issue_message r (JDict kvs) ''critical'' =
      Inr (join ''\<newline>'' ([d, [], ''**Severity**: CRITICAL | **Confidence**: '' @ ''0.9'', [],
                              ''**Risk**: '' @ py_str r (JStr ''High''), []] @ rest))"
    by blast
  define msg where "msg = join ''\<newline>'' ([d, [], ''**Severity**: CRITICAL | **Confidence**: '' @ ''0.9'', [],
                              ''**Risk**: '' @ py_str r (JStr ''High''), []] @ rest)"
  have "process_issue r ''critical'' [] (JDict kvs) =
          Inr [(''x.py'', [JDict [(''line'', JInt 10), (''message'', JStr msg),
                                  (''level'', JStr ''error'')]])]"
    unfolding process_issue_def
    by (simp add: assms(2) parse_x10 m level_critical msg_def)
  then have e: "extract_file_comments r (JDict [(''issues'', JDict [(''critical'', JList [JDict kvs])])])
               = Inr [(''x.py'', [JDict [(''line'', JInt 10), (''message'', JStr msg),
                                          (''level'', JStr ''error'')]])]"
    by (rule single_critical_issue)
  have c1: "str_contains msg ''**Severity**: CRITICAL | **Confidence**: 0.9''"
    unfolding msg_def by (rule join_str_contains) simp
  have c2: "str_contains msg ''**Risk**: High''"
    unfolding msg_def by (rule join_str_contains) simp
  from e c1 c2 show ?thesis by blast
qed

theorem critical_issue_comment_witness:
  "\<exists>m. extract_file_comments (\<lambda>x. [])
         (JDict [(''issues'', JDict [(''critical'', JList [JDict
            [(''description'', JStr ''d''),
             (''confidence'', JFloat (Finite False 8556839292003942 (- 53))),
             (''location'', JStr ''x.py:10''), (''risk'', JStr ''High'')]])])])
       = Inr [(''x.py'', [JDict [(''line'', JInt 10), (''message'', JStr m),
                                  (''level'', JStr ''error'')]])]
     \<and> str_contains m ''**Severity**: CRITICAL | **Confidence**: 0.9''
     \<and> str_contains m ''**Risk**: High''"
  by (rule critical_issue_comment) (simp_all add: text_or_absent_def)

lemma critical_example_message:
  "format_issue_message (\<lambda>x. [])
     (JDict [(''description'', JStr ''d''),
             (''confidence'', JFloat (Finite False 8556839292003942 (- 53))),
             (''location'', JStr ''x.py:10''), (''risk'', JStr ''High'')]) ''critical''
   = Inr ''d\<newline>\<newline>**Severity**: CRITICAL | **Confidence**: 0.9\<newline>\<newline>**Risk**: High\<newline>''"
  unfolding format_issue_message_def
  by (simp add: append_field_dict append_block_dict upper_critical py_join_def format_095
      del: format_1f.simps)

text \<open>
  Claim C1 as stated fails: the message of such an issue contains neither
  \<open>Severity: CRITICAL | Confidence: 1.0\<close> nor \<open>Risk: High\<close>.
\<close>

theorem critical_issue_comment_counterexample:
  "extract_file_comments (\<lambda>x. [])
         (JDict [(''issues'', JDict [(''critical'', JList [JDict
            [(''description'', JStr ''d''),
             (''confidence'', JFloat (Finite False 8556839292003942 (- 53))),
             (''location'', JStr ''x.py:10''), (''risk'', JStr ''High'')]])])])
     = Inr [(''x.py'', [JDict [(''line'', JInt 10),
             (''message'', JStr ''d\<newline>\<newline>**Severity**: CRITICAL | **Confidence**: 0.9\<newline>\<newline>**Risk**: High\<newline>''),
             (''level'', JStr ''error'')]])]
   \<and> \<not> str_contains ''d\<newline>\<newline>**Severity**: CRITICAL | **Confidence**: 0.9\<newline>\<newline>**Risk**: High\<newline>''
           ''Severity: CRITICAL | Confidence: 1.0''
   \<and> \<not> str_contains ''d\<newline>\<newline>**Severity**: CRITICAL | **Confidence**: 0.9\<newline>\<newline>**Risk**: High\<newline>''
           ''Risk: High''"
proof -
  have "process_issue (\<lambda>x. []) ''critical'' []
          (JDict [(''description'', JStr ''d''),
             (''confidence'', JFloat (Finite False 8556839292003942 (- 53))),
             (''location'', JStr ''x.py:10''), (''risk'', JStr ''High'')])
        = Inr [(''x.py'', [JDict [(''line'', JInt 10),
             (''message'', JStr ''d\<newline>\<newline>**Severity**: CRITICAL | **Confidence**: 0.9\<newline>\<newline>**Risk**: High\<newline>''),
             (''level'', JStr ''error'')]])]"
    unfolding process_issue_def
    by (simp add: parse_x10 critical_example_message level_critical)
  then have e: "extract_file_comments (\<lambda>x. [])
         (JDict [(''issues'', JDict [(''critical'', JList [JDict
            [(''description'', JStr ''d''),
             (''confidence'', JFloat (Finite False 8556839292003942 (- 53))),
             (''location'', JStr ''x.py:10''), (''risk'', JStr ''High'')]])])])
     = Inr [(''x.py'', [JDict [(''line'', JInt 10),
             (''message'', JStr ''d\<newline>\<newline>**Severity**: CRITICAL | **Confidence**: 0.9\<newline>\<newline>**Risk**: High\<newline>''),
             (''level'', JStr ''error'')]])]"
    by (rule single_critical_issue)
  have n1: "\<not> str_contains ''d\<newline>\<newline>**Severity**: CRITICAL | **Confidence**: 0.9\<newline>\<newline>**Risk**: High\<newline>''
           ''Severity: CRITICAL | Confidence: 1.0''"
    by code_simp
  have n2: "\<not> str_contains ''d\<newline>\<newline>**Severity**: CRITICAL | **Confidence**: 0.9\<newline>\<newline>**Risk**: High\<newline>''
           ''Risk: High''"
    by code_simp
  from e n1 n2 show ?thesis by blast
qed

section \<open>The standalone schema validator\<close>

text \<open>
  Claim C7 fails on the code. A record whose message is not a string, here the number 5,
  is accepted; and the rejection of an invalid level names the file but not the index of
  the record, here 1. The rejection of a comments value that is not a list names the
  file, as the claim says.
\<close>

theorem validate_schema_accepts_non_string_message:
  "validate_schema r
     (JDict [(''zuul'', JDict [(''file_comments'',
        JDict [(''f.py'', JList [JDict [(''message'', JInt 5)]])])])])
     = Inr (True, ''Schema validation passed'')
   \<and> validate_schema r
     (JDict [(''zuul'', JDict [(''file_comments'',
        JDict [(''f.py'', JList [JDict [(''message'', JStr ''m'')],
                                 JDict [(''message'', JStr ''m''), (''level'', JStr ''bad'')]])])])])
     = Inr (False, ''Invalid level bad in f.py, must be info/warning/error'')
   \<and> validate_schema r
     (JDict [(''zuul'', JDict [(''file_comments'', JDict [(''f.py'', JStr ''not-a-list'')])])])
     = Inr (False, ''Comments for f.py must be a list'')"
  by (simp add: validate_schema_def comment_error_def valid_levels_def)

section \<open>Decoding and unwrapping the input\<close>

lemma generate_then_validate:
  assumes "generate_zuul_return_data r d = Inr payload"
  shows "validate_zuul_schema payload = Inr True"
proof -
  from assms obtain fc where fc: "extract_file_comments r d = Inr fc"
    and p: "payload = JDict [(''zuul'',
              JDict [(''file_comments'', JDict (map (\<lambda>pc. (fst pc, JList (snd pc))) fc))])]"
    unfolding generate_zuul_return_data_def by (auto simp: bind_Inr_iff)
  show ?thesis
    unfolding p validate_generated
    using validate_files_all [OF extract_well_formed [OF fc]] by simp
qed

lemma emit_generated:
  "bind (generate_zuul_return_data r d) (\<lambda>zuul_data.
     bind (validate_zuul_schema zuul_data) (\<lambda>valid.
       if \<not> valid then Inl (SystemExit 1) else Inr zuul_data))
   = generate_zuul_return_data r d"
proof (cases "generate_zuul_return_data r d")
  case (Inl e)
  then show ?thesis by simp
next
  case (Inr payload)
  then show ?thesis using generate_then_validate [OF Inr] by simp
qed

lemma main_loaded:
  assumes "load_json_with_trailing_text scan_once input = Inr (JDict kvs)"
  shows "main r scan_once input =
           (case map_of kvs ''structured_output'' of
              None \<Rightarrow> generate_zuul_return_data r (JDict kvs)
            | Some inner \<Rightarrow>
                if is_dict inner then generate_zuul_return_data r inner else Inl (SystemExit 1))"
  unfolding main_def assms
  by (cases "map_of kvs ''structured_output''")
     (simp_all add: extract_review_data_def key_in_dict emit_generated)

lemma whitespace_end_0: "whitespace_end '' {} x'' 0 = 1" "whitespace_end '' {}'' 0 = 1"
  by (simp_all add: whitespace_end_def is_whitespace_def)

lemma whitespace_end_3: "whitespace_end '' {} x'' 3 = 4" "whitespace_end '' {}'' 3 = 3"
  by (simp_all add: whitespace_end_def is_whitespace_def)

text \<open>
  Claim C2, at the text \<open> {} x\<close>: a space, the empty object, a space and a letter. Let
  the scanner do on it what Python's does: no value starts at the space at index 0, and the
  empty object runs from index 1 to index 3. Then the prefix \<open> {}\<close> is a text
  \<open>json.loads\<close> accepts, and \<open>json.loads\<close> rejects the whole text with \<open>Extra data\<close> at
  position 4. The second attempt does not decode that prefix: \<open>raw_decode\<close> starts at
  index 0 and skips no whitespace, so \<open>load_json_with_trailing_text\<close> raises
  \<open>No valid JSON found in file: Expecting value\<close> with position 0, which is neither the
  prefix decoded nor the position of the first error, and the run exits with status 1.
\<close>

theorem leading_whitespace_defeats_fallback:
  assumes "scan_once '' {} x'' 0 = Inl (StopIteration 0)"
    and "scan_once '' {} x'' 1 = Inr (JDict [], 3)"
    and "scan_once '' {}'' 1 = Inr (JDict [], 3)"
  shows "loads scan_once '' {}'' = Inr (JDict [])
     \<and> loads scan_once '' {} x'' = Inl (JSONDecodeError ''Extra data'' '' {} x'' 4)
     \<and> load_json_with_trailing_text scan_once (Inr '' {} x'')
         = Inl (JSONDecodeError ''No valid JSON found in file: Expecting value'' '' {} x'' 0)
     \<and> main r scan_once (Inr '' {} x'') = Inl (SystemExit 1)"
proof -
  have p: "loads scan_once '' {}'' = Inr (JDict [])"
    using assms(3)
    by (simp add: loads_def decode_def raw_decode_def whitespace_end_0 whitespace_end_3)
  have w: "loads scan_once '' {} x'' = Inl (JSONDecodeError ''Extra data'' '' {} x'' 4)"
    using assms(2)
    by (simp add: loads_def decode_def raw_decode_def whitespace_end_0 whitespace_end_3)
  have l: "load_json_with_trailing_text scan_once (Inr '' {} x'')
         = Inl (JSONDecodeError ''No valid JSON found in file: Expecting value'' '' {} x'' 0)"
    using assms(1) by (simp add: load_json_with_trailing_text_def w raw_decode_def)
  have m: "main r scan_once (Inr '' {} x'') = Inl (SystemExit 1)"
    unfolding main_def l by simp
  from p w l m show ?thesis by simp
qed

theorem leading_whitespace_defeats_fallback_witness:
  "loads example_scan_once '' {}'' = Inr (JDict [])
     \<and> loads example_scan_once '' {} x'' = Inl (JSONDecodeError ''Extra data'' '' {} x'' 4)
     \<and> load_json_with_trailing_text example_scan_once (Inr '' {} x'')
         = Inl (JSONDecodeError ''No valid JSON found in file: Expecting value'' '' {} x'' 0)
     \<and> main (\<lambda>x. []) example_scan_once (Inr '' {} x'') = Inl (SystemExit 1)"
proof -
  have h: "example_scan_once '' {} x'' 0 = Inl (StopIteration 0)"
    "example_scan_once '' {} x'' 1 = Inr (JDict [], 3)"
    "example_scan_once '' {}'' 1 = Inr (JDict [], 3)"
    by (simp_all add: example_scan_once_def)
  show ?thesis
    using leading_whitespace_defeats_fallback [of example_scan_once "\<lambda>x. []", OF h] by simp
qed

section \<open>The statistics section\<close>

lemma contains_here: "str_contains (s @ b) s"
  using str_contains_append [of "[]" s b] by simp

lemma contains_later: "str_contains t s \<Longrightarrow> str_contains (a @ t) s"
  by (induction a) auto

lemma py_get_dict: "py_get (JDict kvs) k d = Inr (case map_of kvs k of Some v \<Rightarrow> v | None \<Rightarrow> d)"
  by simp

text \<open>
  Claim C6, as amended. The statistics section renders five numbers, critical, high,
  warnings, suggestions and total, each the value the document's statistics declare under
  that key (0 when the key is absent); the total is the declared \<open>statistics.total\<close>, not
  a sum computed by the renderer.
\<close>

theorem statistics_rendered_as_declared:
  "html_contains (render_statistics_section r (JDict kvs))
     (stat_number (py_str r (declared kvs ''critical'')) '' critical issues'')
   \<and> html_contains (render_statistics_section r (JDict kvs))
     (stat_number (py_str r (declared kvs ''high'')) '' high issues'')
   \<and> html_contains (render_statistics_section r (JDict kvs))
     (stat_number (py_str r (declared kvs ''warnings'')) '' warnings'')
   \<and> html_contains (render_statistics_section r (JDict kvs))
     (stat_number (py_str r (declared kvs ''suggestions'')) '' suggestions'')
   \<and> html_contains (render_statistics_section r (JDict kvs))
     (stat_number (py_str r (declared kvs ''total'')) '' total findings'')"
  unfolding render_statistics_section_def html_contains_def py_get_dict bind_Inr declared_def sum.case
  by (intro conjI; (rule contains_here | rule contains_later)+)

lemma digits_1: "digits_of_nat (Suc 0) = ''1''" by (subst digits_of_nat.simps) simp
lemma digits_5: "digits_of_nat 5 = ''5''" by (simp add: digits_of_nat.simps)
lemma digits_0b: "digits_of_nat 0 = ''0''" by (simp add: digits_of_nat.simps)
lemma p5: "py_str r (JInt 5) = ''5''" by (simp add: str_of_int_def digits_5)
lemma p1: "py_str r (JInt 1) = ''1''" by (simp add: str_of_int_def digits_1)
lemma p0: "py_str r (JInt 0) = ''0''" by (simp add: str_of_int_def digits_0b)
text \<open>
  Claim C6 as stated fails: with the counts 1, 0, 0, 0 and a declared total of 5 the
  section shows the total 5, which is not the sum of the four counts it shows.
\<close>

theorem statistics_total_counterexample:
  \<open>render_statistics_section (\<lambda>x. [])
       (JDict [(''critical'', JInt 1), (''high'', JInt 0), (''warnings'', JInt 0),
               (''suggestions'', JInt 0), (''total'', JInt 5)])
     = Inr ''<div class="summary-stats">\<newline><div class="stats-container" role="region" aria-label="Summary statistics">\<newline>    <div class="stat-item stat-critical">\<newline>        <div class="stat-number" aria-label="1 critical issues">1</div>\<newline>        <div class="stat-label">Critical</div>\<newline>    </div>\<newline>    <div class="stat-item stat-high">\<newline>        <div class="stat-number" aria-label="0 high issues">0</div>\<newline>        <div class="stat-label">High</div>\<newline>    </div>\<newline>    <div class="stat-item stat-warning">\<newline>        <div class="stat-number" aria-label="0 warnings">0</div>\<newline>        <div class="stat-label">Warnings</div>\<newline>    </div>\<newline>    <div class="stat-item stat-suggestion">\<newline>        <div class="stat-number" aria-label="0 suggestions">0</div>\<newline>        <div class="stat-label">Suggestions</div>\<newline>    </div>\<newline>    <div class="stat-item">\<newline>        <div class="stat-number" aria-label="5 total findings">5</div>\<newline>        <div class="stat-label">Total</div>\<newline>    </div>\<newline></div>\<newline></div>\<newline>''
   \<and> (1::int) + 0 + 0 + 0 \<noteq> 5\<close>
  unfolding render_statistics_section_def
  by (simp add: stat_number_def p5 p1 p0 del: py_str.simps)

section \<open>Issues without a usable location\<close>

lemma process_issues_append:
  "process_issues r label (xs @ ys) fc =
     bind (process_issues r label xs fc) (process_issues r label ys)"
proof (induction xs arbitrary: fc)
  case Nil
  then show ?case by simp
next
  case (Cons a xs)
  then show ?case
    by (cases "process_issue r label fc a") simp_all
qed

lemma process_issue_unlocated:
  assumes "unlocated kvs"
  shows "process_issue r label fc (JDict kvs) = Inr fc"
proof (cases "map_of kvs ''location''")
  case None
  then show ?thesis by (simp add: process_issue_def)
next
  case (Some v)
  then obtain loc where v: "v = JStr loc" and p: "parse_location loc = Inr None"
    using assms unfolding unlocated_def by (cases v) auto
  show ?thesis using Some v p by (simp add: process_issue_def)
qed

lemma render_cards_member:
  "render_cards r sev idx t xs = Inr cards \<Longrightarrow> x \<in> set xs \<Longrightarrow>
   \<exists>n card. render_issue_card r x sev n t = Inr card \<and> card \<in> set cards"
proof (induction xs arbitrary: idx cards)
  case Nil
  then show ?case by simp
next
  case (Cons y ys)
  from Cons.prems(1) obtain c cs where c: "render_issue_card r y sev idx t = Inr c"
    and cs: "render_cards r sev (Suc idx) t ys = Inr cs" and cards: "cards = c # cs"
    by (auto simp: bind_Inr_iff)
  show ?case
  proof (cases "x = y")
    case True
    then show ?thesis using c cards by auto
  next
    case False
    then have "x \<in> set ys" using Cons.prems(2) by simp
    from Cons.IH [OF cs this] show ?thesis using cards by auto
  qed
qed

lemma render_section_keeps:
  "render_section r issues key sev aria heading parts = Inr parts' \<Longrightarrow> set parts \<subseteq> set parts'"
  unfolding render_section_def
  by (auto simp: bind_Inr_iff split: if_splits)

lemma render_section_member:
  assumes "render_section r (JDict iss) key sev aria heading parts = Inr parts'"
    and "map_of iss key = Some (JList xs)" and "x \<in> set xs"
  shows "\<exists>n card. render_issue_card r x sev n (length xs) = Inr card \<and> card \<in> set parts'"
proof -
  have t: "truthy (JList xs)" using assms(3) by auto
  from assms(1) obtain cards where c: "render_cards r sev 1 (length xs) xs = Inr cards"
    and p: "parts' = parts @ [''<section role=\"region\" aria-label=\"'' @ aria @ ''\">'',
                      ''<h2>'' @ heading @ ''</h2>''] @ cards @ [''</section>'']"
    unfolding render_section_def using assms(2) t
    by (auto simp: bind_Inr_iff)
  from render_cards_member [OF c assms(3)] show ?thesis using p by auto
qed

lemma render_all_issues_member:
  assumes "render_all_issues r (JDict iss) = Inr html"
    and "(key, sev) \<in> set severity_sections"
    and "map_of iss key = Some (JList xs)" and "x \<in> set xs"
  shows "\<exists>n card. render_issue_card r x sev n (length xs) = Inr card \<and> str_contains html card"
proof -
  from assms(1) obtain p1 p2 p3 p4 where
    s1: "render_section r (JDict iss) ''critical'' ''critical'' ''Critical issues'' ''Critical Issues'' [] = Inr p1"
    and s2: "render_section r (JDict iss) ''high'' ''high'' ''High severity issues'' ''High Issues'' p1 = Inr p2"
    and s3: "render_section r (JDict iss) ''warnings'' ''warning'' ''Warnings'' ''Warnings'' p2 = Inr p3"
    and s4: "render_section r (JDict iss) ''suggestions'' ''suggestion'' ''Suggestions'' ''Suggestions'' p3 = Inr p4"
    and h: "html = join ''\<newline>'' p4"
    unfolding render_all_issues_def by (auto simp: bind_Inr_iff)
  note k2 = render_section_keeps [OF s2] and k3 = render_section_keeps [OF s3]
    and k4 = render_section_keeps [OF s4]
  from assms(2) consider "key = ''critical''" "sev = ''critical''" | "key = ''high''" "sev = ''high''"
    | "key = ''warnings''" "sev = ''warning''" | "key = ''suggestions''" "sev = ''suggestion''"
    by (auto simp: severity_sections_def)
  then have "\<exists>n card. render_issue_card r x sev n (length xs) = Inr card \<and> card \<in> set p4"
  proof cases
    case 1
    from render_section_member [OF s1 assms(3) [unfolded 1(1)] assms(4)] show ?thesis
      using 1(2) k2 k3 k4 by blast
  next
    case 2
    from render_section_member [OF s2 assms(3) [unfolded 2(1)] assms(4)] show ?thesis
      using 2(2) k3 k4 by blast
  next
    case 3
    from render_section_member [OF s3 assms(3) [unfolded 3(1)] assms(4)] show ?thesis
      using 3(2) k4 by blast
  next
    case 4
    from render_section_member [OF s4 assms(3) [unfolded 4(1)] assms(4)] show ?thesis
      using 4(2) by blast
  qed
  then show ?thesis using h join_str_contains by blast
qed

lemma bind_InrE:
  assumes "bind m f = Inr y"
  obtains x where "m = Inr x" and "f x = Inr y"
  using assms by (auto simp: bind_Inr_iff)

lemma card_shows_description:
  assumes "render_issue_card r (JDict kvs) sev n t = Inr c"
  shows "str_contains c (escape_html r (description_of kvs))"
  using assms
  unfolding render_issue_card_def description_of_def py_get_dict bind_Inr
  apply (elim bind_InrE)
  apply (simp only: sum.inject)
  apply hypsubst
  apply ((rule contains_here | rule contains_later)+)
  done



lemma parse_not_a_location: "parse_location ''not-a-location'' = Inr None"
  by code_simp

lemma example_issues_render:
  "\<exists>html. render_all_issues (\<lambda>x. [])
      (JDict [(''critical'', JList [JDict [(''description'', JStr ''d''),
                                          (''location'', JStr ''not-a-location'')]])]) = Inr html"
  by (simp add: render_all_issues_def render_section_def render_issue_card_def detail_field_def)


section \<open>Escaping of the free text\<close>

lemma raw_markup_append [simp]: "raw_markup (a @ b) = raw_markup a @ raw_markup b"
  by (simp add: raw_markup_def)

lemma raw_markup_Nil [simp]: "raw_markup [] = []"
  by (simp add: raw_markup_def)

lemma replace_char_append: "replace_char c new (a @ b) = replace_char c new a @ replace_char c new b"
  by (simp add: replace_char_def)

lemma replace_char_concat:
  "replace_char c new (concat (map f s)) = concat (map (\<lambda>x. replace_char c new (f x)) s)"
  by (induction s) (simp_all add: replace_char_append, simp add: replace_char_def)

lemma replace_char_chars: "replace_char c new s = concat (map (\<lambda>x. replace_char c new [x]) s)"
  by (simp add: replace_char_def)

lemma entity_replacements:
  "replace_char (CHR 0x27) ''&#39;''
     (replace_char (CHR 0x22) ''&quot;''
       (replace_char CHR ''>'' ''&gt;''
         (replace_char CHR ''<'' ''&lt;''
           (replace_char CHR ''&'' ''&amp;'' [c])))) = entity c"
  by (simp add: replace_char_def entity_def)

lemma py_str_text: "(case x of JStr s \<Rightarrow> s | _ \<Rightarrow> py_str r x) = py_str r x"
  by (cases x) simp_all

lemma escape_html_entities: "escape_html r x = concat (map entity (py_str r x))"
  unfolding escape_html_def py_str_text
  by (subst replace_char_chars [of "CHR ''&''"])
     (simp only: replace_char_concat entity_replacements)

lemma raw_markup_entity: "raw_markup (entity c) = []"
  by (simp add: entity_def raw_markup_def)

lemma raw_markup_entities: "raw_markup (concat (map entity s)) = []"
  by (induction s) (simp_all add: raw_markup_entity)

lemma raw_markup_escape_html [simp]: "raw_markup (escape_html r x) = []"
  by (simp add: escape_html_entities raw_markup_entities)

lemma script_escaped:
  "escape_html r (JStr ''<script>alert(1)</script>'') = ''&lt;script&gt;alert(1)&lt;/script&gt;''"
  by (simp add: escape_html_def replace_char_def)


lemma raw_markup_Cons [simp]:
  "raw_markup (c # s) =
     (if c \<in> set [CHR ''<'', CHR ''>'', CHR 0x22, CHR 0x27] then c # raw_markup s else raw_markup s)"
  by (simp add: raw_markup_def)

lemma same_markup_refl: "same_markup a a"
  by (cases a) (simp_all add: same_markup_def)

lemma same_markup_Inr: "same_markup (Inr s) (Inr t) = (raw_markup s = raw_markup t)"
  by (simp add: same_markup_def)

lemma map_of_blank:
  "map_of (map (\<lambda>kv. (fst kv, if fst kv \<in> set keys then JStr [] else snd kv)) kvs) k
     = (case map_of kvs k of None \<Rightarrow> None | Some v \<Rightarrow> Some (if k \<in> set keys then JStr [] else v))"
  by (induction kvs) auto

lemma blank_dict:
  "blank_text keys (JDict kvs)
     = JDict (map (\<lambda>kv. (fst kv, if fst kv \<in> set keys then JStr [] else snd kv)) kvs)"
  by (simp add: blank_text_def)

lemma blank_other: "\<not> is_dict x \<Longrightarrow> blank_text keys x = x"
  by (cases x) (simp_all add: blank_text_def)

lemma raw_markup_join:
  "raw_markup sep = [] \<Longrightarrow> raw_markup (join sep ps) = concat (map raw_markup ps)"
  by (induction sep ps rule: join.induct) simp_all

lemma detail_field_dict:
  "detail_field r (JDict kvs) key label parts
     = Inr (parts @ (case map_of kvs key of
                       None \<Rightarrow> []
                     | Some v \<Rightarrow> [''<p><strong>'' @ label @ ''</strong>: '' @ escape_html r v @ ''</p>'']))"
  by (cases "map_of kvs key") (simp_all add: detail_field_def key_in_dict del: raw_markup_Cons)

lemma detail_field_blank:
  assumes "map raw_markup parts = map raw_markup parts0"
  shows "\<exists>ps ps0. detail_field r (JDict kvs) key label parts = Inr ps
           \<and> detail_field r (blank_text keys (JDict kvs)) key label parts0 = Inr ps0
           \<and> map raw_markup ps = map raw_markup ps0"
  using assms
  by (simp add: detail_field_dict blank_dict map_of_blank split: option.splits)


lemma rel_bind:
  assumes "rel_sum (=) A m m'" and "\<And>x y. A x y \<Longrightarrow> rel_sum (=) B (f x) (g y)"
  shows "rel_sum (=) B (bind m f) (bind m' g)"
  using assms by (cases m; cases m') auto

lemma same_markup_rel:
  "same_markup a b = rel_sum (=) (\<lambda>s t. raw_markup s = raw_markup t) a b"
  by (cases a; cases b) (auto simp: same_markup_def)

lemma detail_field_rel:
  assumes "map raw_markup parts = map raw_markup parts0"
  shows "rel_sum (=) (\<lambda>ps qs. map raw_markup ps = map raw_markup qs)
           (detail_field r (JDict kvs) key label parts)
           (detail_field r
              (JDict (map (\<lambda>kv. (fst kv, if fst kv \<in> set keys then JStr [] else snd kv)) kvs))
              key label parts0)"
  using assms
  by (simp add: detail_field_dict map_of_blank split: option.splits)

lemma location_part:
  "map raw_markup [''<p><strong>Location</strong>: <code>'' @ escape_html r a @ ''</code></p>'']
     = map raw_markup [''<p><strong>Location</strong>: <code>'' @ escape_html r b @ ''</code></p>'']"
  by simp


lemma confidence_blank:
  "map_of (map (\<lambda>kv. (fst kv, if fst kv \<in> set issue_text_keys then JStr [] else snd kv)) kvs)
     ''confidence'' = map_of kvs ''confidence''"
  by (subst map_of_blank) (simp add: issue_text_keys_def split: option.splits)

lemma rel_if:
  assumes "c \<Longrightarrow> R a b" and "\<not> c \<Longrightarrow> R a' b'"
  shows "R (if c then a else a') (if c then b else b')"
  using assms by simp

lemma rel_Inr: "A x y \<Longrightarrow> rel_sum (=) A (Inr x) (Inr y)"
  by simp

lemmas rel_parts_bind = rel_bind [where A = "\<lambda>ps qs. map raw_markup ps = map raw_markup qs"]

lemmas rel_parts_if = rel_if [where R = "rel_sum (=) (\<lambda>ps qs. map raw_markup ps = map raw_markup qs)"]

lemma render_issue_card_dict_blank:
  "same_markup (render_issue_card r (JDict kvs) sev n t)
     (render_issue_card r (blank_text issue_text_keys (JDict kvs)) sev n t)"
  unfolding render_issue_card_def blank_dict py_get_dict bind_Inr same_markup_rel
  apply (rule rel_parts_bind)
  subgoal
    apply (rule rel_parts_if)
    subgoal
      apply (rule rel_parts_bind, rule detail_field_rel, rule location_part)
      apply (rule rel_parts_bind, rule detail_field_rel, assumption)
      apply (rule rel_parts_bind, rule detail_field_rel, assumption)
      apply (rule detail_field_rel, assumption)
      done
    apply (rule rel_parts_if)
    subgoal
      apply (rule rel_parts_bind, rule detail_field_rel, rule location_part)
      apply (rule detail_field_rel, assumption)
      done
    apply (rule rel_parts_if)
    subgoal
      apply (rule rel_parts_bind, rule detail_field_rel, rule location_part)
      apply (rule detail_field_rel, assumption)
      done
    apply (rule rel_Inr, rule location_part)
    done
  subgoal for ps qs
    apply (rule rel_bind [where A = "(=)"])
    subgoal
      by (simp add: confidence_blank sum.rel_eq)
    subgoal
      by (simp add: raw_markup_join)
    done
  done


lemma render_issue_card_blank:
  "same_markup (render_issue_card r x sev n t)
     (render_issue_card r (blank_text issue_text_keys x) sev n t)"
  by (cases x) (simp_all add: render_issue_card_dict_blank same_markup_refl blank_other)

lemma rel_parts_refl: "rel_sum (=) (\<lambda>ps qs. map raw_markup ps = map raw_markup qs) a a"
  by (cases a) simp_all

lemma render_cards_blank:
  "rel_sum (=) (\<lambda>ps qs. map raw_markup ps = map raw_markup qs)
     (render_cards r sev idx t xs) (render_cards r sev idx t (map (blank_text issue_text_keys) xs))"
proof (induction xs arbitrary: idx)
  case Nil
  show ?case by simp
next
  case (Cons x xs)
  show ?case
    unfolding render_cards.simps list.map
    apply (rule rel_bind [where A = "\<lambda>s t. raw_markup s = raw_markup t"])
     apply (rule render_issue_card_blank [unfolded same_markup_rel])
    apply (rule rel_parts_bind)
     apply (rule Cons.IH)
    apply simp
    done
qed

lemma render_cards_blank_or_same:
  assumes "ys = map (blank_text issue_text_keys) xs \<or> ys = xs"
  shows "rel_sum (=) (\<lambda>ps qs. map raw_markup ps = map raw_markup qs)
     (render_cards r sev idx (length xs) xs) (render_cards r sev idx (length ys) ys)"
  using assms render_cards_blank [of r sev idx "length xs" xs] rel_parts_refl by auto

lemma truthy_blank_each: "truthy (blank_each keys v) = truthy v"
  by (cases v) (simp_all add: blank_each_def)

lemma py_iter_blank_each:
  "rel_sum (=) (\<lambda>xs ys. ys = map (blank_text keys) xs \<or> ys = xs) (py_iter v) (py_iter (blank_each keys v))"
  by (cases v) (simp_all add: blank_each_def)

lemma map_of_map_snd:
  "map_of (map (\<lambda>kv. (fst kv, f (snd kv))) kvs) k = map_option f (map_of kvs k)"
  by (induction kvs) auto

lemma py_get_blank_issues:
  "py_get (blank_issues (JDict kvs)) key (JList [])
     = Inr (blank_each issue_text_keys (case map_of kvs key of Some v \<Rightarrow> v | None \<Rightarrow> JList []))"
proof (cases "map_of kvs key")
  case None
  have "blank_each issue_text_keys (JList []) = JList []" by (simp add: blank_each_def)
  then show ?thesis using None by (simp add: blank_issues_def map_of_map_snd)
next
  case (Some v)
  then show ?thesis by (simp add: blank_issues_def map_of_map_snd)
qed

lemma render_section_blank:
  assumes "map raw_markup parts = map raw_markup parts0"
  shows "rel_sum (=) (\<lambda>ps qs. map raw_markup ps = map raw_markup qs)
     (render_section r issues key sev aria heading parts)
     (render_section r (blank_issues issues) key sev aria heading parts0)"
proof (cases issues)
  case (JDict kvs)
  show ?thesis
    unfolding JDict render_section_def py_get_blank_issues py_get_dict bind_Inr truthy_blank_each
    apply (rule rel_parts_if)
     apply (rule rel_bind [where A = "\<lambda>xs ys. ys = map (blank_text issue_text_keys) xs \<or> ys = xs"])
      apply (rule py_iter_blank_each)
     apply (rule rel_parts_bind)
      apply (erule render_cards_blank_or_same)
     apply (simp add: assms)
    apply (simp add: assms)
    done
qed (simp_all add: render_section_def blank_issues_def)

lemma render_all_issues_blank:
  "same_markup (render_all_issues r issues) (render_all_issues r (blank_issues issues))"
  unfolding render_all_issues_def same_markup_rel
  apply (rule rel_parts_bind, rule render_section_blank, simp)
  apply (rule rel_parts_bind, rule render_section_blank, assumption)
  apply (rule rel_parts_bind, rule render_section_blank, assumption)
  apply (rule rel_parts_bind, rule render_section_blank, assumption)
  apply (simp add: raw_markup_join)
  done


lemmas rel_text_bind = rel_bind [where A = "\<lambda>s t. raw_markup s = raw_markup t"]

lemma render_context_section_blank:
  "same_markup (render_context_section r x) (render_context_section r (blank_text context_text_keys x))"
proof (cases x)
  case (JDict kvs)
  show ?thesis
    unfolding JDict render_context_section_def blank_dict py_get_dict bind_Inr same_markup_Inr
    by simp
qed (simp_all add: blank_text_def same_markup_refl)

lemma render_summary_section_blank:
  "same_markup (render_summary_section r x statistics)
     (render_summary_section r (blank_text summary_text_keys x) statistics)"
proof (cases x)
  case (JDict kvs)
  show ?thesis
    unfolding JDict render_summary_section_def blank_dict py_get_dict bind_Inr same_markup_rel
    apply (rule rel_bind [where A = "(=)"], simp add: sum.rel_eq)
    apply (rule rel_bind [where A = "(=)"], simp add: sum.rel_eq)
    apply (rule rel_bind [where A = "(=)"], simp add: sum.rel_eq)
    apply (rule rel_bind [where A = "(=)"], simp add: sum.rel_eq)
    apply simp
    done
qed (simp_all add: blank_text_def same_markup_refl)

lemma render_observations_blank:
  "rel_sum (=) (\<lambda>ps qs. map raw_markup ps = map raw_markup qs)
     (render_observations r xs) (render_observations r (map (blank_text observation_text_keys) xs))"
proof (induction xs)
  case Nil
  show ?case by simp
next
  case (Cons x xs)
  show ?case
  proof (cases x)
    case (JDict kvs)
    show ?thesis
      unfolding JDict render_observations.simps list.map blank_dict py_get_dict bind_Inr
      apply (rule rel_parts_bind)
       apply (rule Cons.IH)
      apply simp
      done
  qed (simp_all add: blank_text_def)
qed

lemma render_observations_blank_or_same:
  assumes "ys = map (blank_text observation_text_keys) xs \<or> ys = xs"
  shows "rel_sum (=) (\<lambda>ps qs. map raw_markup ps = map raw_markup qs)
     (render_observations r xs) (render_observations r ys)"
  using assms render_observations_blank [of r xs] rel_parts_refl by auto

lemma raw_markup_concat: "raw_markup (concat ps) = concat (map raw_markup ps)"
  by (induction ps) simp_all

lemma render_positive_observations_blank:
  "same_markup (render_positive_observations r v)
     (render_positive_observations r (blank_each observation_text_keys v))"
  unfolding render_positive_observations_def same_markup_rel truthy_blank_each
  apply (rule rel_if [where R = "rel_sum (=) (\<lambda>s t. raw_markup s = raw_markup t)"])
   apply simp
  apply (rule rel_bind [where A = "\<lambda>xs ys. ys = map (blank_text observation_text_keys) xs \<or> ys = xs"])
   apply (rule py_iter_blank_each)
  apply (rule rel_parts_bind)
   apply (erule render_observations_blank_or_same)
  apply (simp add: raw_markup_concat)
  done


lemma blank_empty: "blank_text keys (JDict []) = JDict []" "blank_issues (JDict []) = JDict []"
  "blank_each keys (JList []) = JList []"
  by (simp_all add: blank_text_def blank_issues_def blank_each_def)

lemma py_get_blank_document:
  "py_get (blank_document (JDict kvs)) ''context'' (JDict [])
     = Inr (blank_text context_text_keys (case map_of kvs ''context'' of Some v \<Rightarrow> v | None \<Rightarrow> JDict []))"
  "py_get (blank_document (JDict kvs)) ''statistics'' (JDict [])
     = Inr (case map_of kvs ''statistics'' of Some v \<Rightarrow> v | None \<Rightarrow> JDict [])"
  "py_get (blank_document (JDict kvs)) ''issues'' (JDict [])
     = Inr (blank_issues (case map_of kvs ''issues'' of Some v \<Rightarrow> v | None \<Rightarrow> JDict []))"
  "py_get (blank_document (JDict kvs)) ''positive_observations'' (JList [])
     = Inr (blank_each observation_text_keys
              (case map_of kvs ''positive_observations'' of Some v \<Rightarrow> v | None \<Rightarrow> JList []))"
  "py_get (blank_document (JDict kvs)) ''summary'' (JDict [])
     = Inr (blank_text summary_text_keys (case map_of kvs ''summary'' of Some v \<Rightarrow> v | None \<Rightarrow> JDict []))"
  by (induction kvs) (auto simp: blank_document_def blank_empty)

lemma render_html_template_blank:
  "same_markup (render_html_template r css doc) (render_html_template r css (blank_document doc))"
proof (cases doc)
  case (JDict kvs)
  show ?thesis
    unfolding JDict render_html_template_def py_get_blank_document py_get_dict bind_Inr same_markup_rel
    apply (rule rel_text_bind, rule render_context_section_blank [unfolded same_markup_rel])
    apply (rule rel_bind [where A = "(=)"], simp add: sum.rel_eq)
    apply (rule rel_text_bind, rule render_all_issues_blank [unfolded same_markup_rel])
    apply (rule rel_text_bind, rule render_positive_observations_blank [unfolded same_markup_rel])
    apply (rule rel_text_bind, rule render_summary_section_blank [unfolded same_markup_rel])
    apply simp
    done
qed (simp_all add: blank_document_def same_markup_refl)

lemma statistics_values_shown:
  "html_contains (render_statistics_section r (JDict kvs))
     (stat_number (py_str r (declared kvs ''critical'')) '' critical issues'')
   \<and> html_contains (render_statistics_section r (JDict kvs))
     (stat_number (py_str r (declared kvs ''high'')) '' high issues'')
   \<and> html_contains (render_statistics_section r (JDict kvs))
     (stat_number (py_str r (declared kvs ''warnings'')) '' warnings'')
   \<and> html_contains (render_statistics_section r (JDict kvs))
     (stat_number (py_str r (declared kvs ''suggestions'')) '' suggestions'')
   \<and> html_contains (render_statistics_section r (JDict kvs))
     (stat_number (py_str r (declared kvs ''total'')) '' total findings'')"
  unfolding render_statistics_section_def html_contains_def py_get_dict bind_Inr declared_def sum.case
  by (intro conjI; (rule contains_here | rule contains_later)+)



end
